theory Spec2Isabelle
  imports Main "HOL-Library.Char_ord" "HOL-Library.List_Lexorder" "HOL-Library.Option_ord"
begin

section \<open>Data model of the quota service\<close>

text \<open>
  The wallet/usage/subscription/webhook quota service (class \<open>QuotaService\<close>) over a
  document store with the collections \<open>subscriptions_quota\<close>, \<open>quota_wallets\<close>,
  \<open>quota_usages\<close> and \<open>webhook_events\<close>.  Quantities (\<open>quota_total\<close>, \<open>quota_used\<close>,
  \<open>amount\<close>) are integers.  Timestamps are kept as the ISO strings the documents hold;
  an optional field (\<open>string | null\<close>) is a \<open>string option\<close>.

  An operation of the service is a function from the store to its result and the new
  store.  It is given the clock reading \<open>now\<close> (milliseconds since the epoch) that stands
  for every \<open>new Date()\<close> of the call, and the id \<open>newId\<close> that the store would assign to
  a wallet document created during the call.  A transaction runs alone and once.
\<close>

datatype PlanCycle = monthly | yearly

datatype SubscriptionStatus = S_active | S_cancelled | S_expired | S_refunded | S_billing_issue

datatype WalletStatus = W_active | W_closed

datatype UsageStatus = reserved | committed | rolled_back

datatype ReserveStatus = Usage UsageStatus | rejected

datatype WebhookStatus = received | processed

record PlanConfig =
  planId :: string
  planKey :: string
  cycle :: PlanCycle
  quota :: int
  productIds :: "string list"

record SubscriptionDoc =
  sub_id :: string
  sub_user_id :: string
  platform :: "string option"
  rc_app_user_id :: "string option"
  product_id :: "string option"
  plan_id :: "string option"
  plan_key :: "string option"
  sub_cycle :: "PlanCycle option"
  entitlement_ids :: "string list"
  is_active :: bool
  will_renew :: bool
  sub_status :: SubscriptionStatus
  current_period_start :: "string option"
  current_period_end :: "string option"
  last_rc_event_at :: "string option"
  original_purchase_date :: "string option"
  sub_updated_at :: string
  sub_created_at :: string

record QuotaWalletDoc =
  w_id :: string
  w_user_id :: string
  subscription_id :: "string option"
  w_plan_id :: "string option"
  scope :: PlanCycle
  period_start :: "string option"
  period_end :: "string option"
  quota_total :: int
  quota_used :: int
  w_status :: WalletStatus
  last_usage_at :: "string option"
  w_created_at :: string
  w_updated_at :: string
  closed_reason :: "string option"

record QuotaUsageDoc =
  u_id :: string
  u_user_id :: string
  wallet_id :: string
  request_id :: string
  action :: string
  amount :: int
  u_status :: UsageStatus
  u_created_at :: string
  u_updated_at :: string

record WebhookEventDoc =
  wh_id :: string
  rc_event_id :: string
  event_type :: string
  wh_rc_app_user_id :: "string option"
  received_at :: string
  processed_at :: "string option"
  payload_json :: string
  wh_status :: WebhookStatus

record ReserveResult =
  allowed :: bool
  status :: ReserveStatus
  remaining :: int
  walletId :: "string option"

text \<open>
  \<open>rawEvent\<close> is the JSON text of the provider's event (\<open>None\<close> when absent); it is only
  stored.
\<close>

record RevenueCatEventContext =
  userId :: string
  eventId :: "string option"
  eventType :: string
  rcAppUserId :: "string option"
  productId :: "string option"
  entitlementIds :: "string list"
  ev_platform :: "string option"
  willRenew :: "bool option"
  periodStart :: "string option"
  periodEnd :: "string option"
  originalPurchaseDate :: "string option"
  rawEvent :: "string option"

text \<open>
  The document store.  Every collection is the list of its documents; a document is
  addressed by its \<open>id\<close> field, which every writer of the service sets to the document
  id (\<open>walletRef.id\<close>, \<open>userId\<close>, \<open>userId_requestId\<close>, \<open>eventDocId\<close>).
\<close>

record store =
  subscriptions :: "SubscriptionDoc list"
  wallets :: "QuotaWalletDoc list"
  usages :: "QuotaUsageDoc list"
  webhook_events :: "WebhookEventDoc list"

text \<open>
  What the service calls outside its own module: the two lookups of the plan catalog
  \<open>config/quotaConfig\<close> (\<open>resolvePlanConfig\<close>, \<open>getPlanConfigById\<close>), which read the table
  \<open>PLAN_CONFIG\<close> that the process builds from its environment when it starts, and the
  runtime's \<open>new Date(s).getTime()\<close> (\<open>None\<close> for an invalid date), \<open>Date.toISOString\<close>
  and the SHA-256 hex digest.  The service is stated over any such runtime; the code of
  the two lookups is embedded in the section on the plan catalog, as functions of the
  table.
\<close>

record runtime =
  resolvePlanConfig :: "string option \<Rightarrow> PlanConfig option"
  getPlanConfigById :: "string option \<Rightarrow> PlanConfig option"
  parseDate :: "string \<Rightarrow> int option"
  toISOString :: "int \<Rightarrow> string"
  toHash :: "string \<Rightarrow> string"

section \<open>Store primitives\<close>

definition getDoc :: "('d \<Rightarrow> string) \<Rightarrow> 'd list \<Rightarrow> string \<Rightarrow> 'd option" where
  "getDoc key ds k = find (\<lambda>d. key d = k) ds"

definition updateDoc :: "('d \<Rightarrow> string) \<Rightarrow> string \<Rightarrow> ('d \<Rightarrow> 'd) \<Rightarrow> 'd list \<Rightarrow> 'd list" where
  "updateDoc key k f ds = map (\<lambda>d. if key d = k then f d else d) ds"

text \<open>\<open>ref.set(doc)\<close>: creates the document, or replaces the one with its id.\<close>

definition setDoc :: "('d \<Rightarrow> string) \<Rightarrow> 'd \<Rightarrow> 'd list \<Rightarrow> 'd list" where
  "setDoc key d ds =
     (if getDoc key ds (key d) = None then ds @ [d] else updateDoc key (key d) (\<lambda>_. d) ds)"

text \<open>JavaScript truthiness of a \<open>string | null\<close>: neither \<open>null\<close> nor the empty string.\<close>

definition truthy :: "string option \<Rightarrow> bool" where
  "truthy v = (case v of None \<Rightarrow> False | Some s \<Rightarrow> s \<noteq> [])"

text \<open>\<open>a ?? b\<close> on optional values.\<close>

definition orElse :: "'a option \<Rightarrow> 'a option \<Rightarrow> 'a option" where
  "orElse a b = (case a of Some x \<Rightarrow> Some x | None \<Rightarrow> b)"

definition getSubscription :: "store \<Rightarrow> string \<Rightarrow> SubscriptionDoc option" where
  "getSubscription s uid = getDoc sub_id (subscriptions s) uid"

definition usageDocId :: "string \<Rightarrow> string \<Rightarrow> string" where
  "usageDocId uid requestId = uid @ ''_'' @ requestId"

section \<open>Wallet manager\<close>

text \<open>
  The query of \<open>getActiveWallet\<close>: the user's active wallets, ordered by \<open>period_end\<close>
  descending (\<open>null\<close> sorts below every string, strings by their bytes), ties by
  document id in the same direction; the first one is taken.
\<close>

definition wallet_before :: "QuotaWalletDoc \<Rightarrow> QuotaWalletDoc \<Rightarrow> bool" where
  "wallet_before a b =
     (period_end b < period_end a \<or> (period_end a = period_end b \<and> w_id b < w_id a))"

definition getActiveWallet :: "store \<Rightarrow> string \<Rightarrow> QuotaWalletDoc option" where
  "getActiveWallet s uid =
     (case filter (\<lambda>w. w_user_id w = uid \<and> w_status w = W_active) (wallets s) of
        [] \<Rightarrow> None
      | w # ws \<Rightarrow> Some (foldl (\<lambda>best x. if wallet_before x best then x else best) w ws))"

definition closeWallet :: "string \<Rightarrow> bool \<Rightarrow> string \<Rightarrow> QuotaWalletDoc \<Rightarrow> QuotaWalletDoc" where
  "closeWallet reason setRemainingToZero nowIso w =
     w\<lparr>w_status := W_closed,
       w_updated_at := nowIso,
       last_usage_at := last_usage_at w,
       quota_used := (if setRemainingToZero then quota_total w else quota_used w),
       closed_reason := Some reason\<rparr>"

definition closeWalletsForUser :: "store \<Rightarrow> string \<Rightarrow> string \<Rightarrow> bool \<Rightarrow> string \<Rightarrow> store" where
  "closeWalletsForUser s uid reason setRemainingToZero nowIso =
     s\<lparr>wallets :=
         map (\<lambda>w. if w_user_id w = uid \<and> w_status w = W_active
                   then closeWallet reason setRemainingToZero nowIso w else w)
             (wallets s)\<rparr>"

text \<open>
  \<open>walletRef.set(wallet, {merge: true})\<close> on the store-assigned id \<open>newId\<close>: every field
  of the wallet type is written; a document that already had that id would keep its
  \<open>closed_reason\<close>.
\<close>

definition mergeWallet :: "QuotaWalletDoc \<Rightarrow> QuotaWalletDoc list \<Rightarrow> QuotaWalletDoc list" where
  "mergeWallet w ws =
     (if getDoc w_id ws (w_id w) = None then ws @ [w]
      else updateDoc w_id (w_id w) (\<lambda>old. w\<lparr>closed_reason := closed_reason old\<rparr>) ws)"

definition openWalletForSubscription ::
  "runtime \<Rightarrow> store \<Rightarrow> SubscriptionDoc \<Rightarrow> bool \<Rightarrow> string \<Rightarrow> string \<Rightarrow> QuotaWalletDoc option \<times> store" where
  "openWalletForSubscription rt s subscription closeExisting nowIso newId =
     (case getPlanConfigById rt (plan_id subscription) of
        None \<Rightarrow> (None, s)
      | Some planConfig \<Rightarrow>
          let s1 = (if closeExisting
                    then closeWalletsForUser s (sub_user_id subscription) ''plan_change'' False nowIso
                    else s);
              wallet = \<lparr>w_id = newId,
                        w_user_id = sub_user_id subscription,
                        subscription_id = Some (sub_id subscription),
                        w_plan_id = plan_id subscription,
                        scope = cycle planConfig,
                        period_start = current_period_start subscription,
                        period_end = current_period_end subscription,
                        quota_total = quota planConfig,
                        quota_used = 0,
                        w_status = W_active,
                        last_usage_at = None,
                        w_created_at = nowIso,
                        w_updated_at = nowIso,
                        closed_reason = None\<rparr>
          in (Some wallet, s1\<lparr>wallets := mergeWallet wallet (wallets s1)\<rparr>))"

text \<open>
  \<open>new Date(v)\<close> for a truthy \<open>v\<close>, else \<open>null\<close>: \<open>None\<close> is \<open>null\<close>, \<open>Some None\<close> an
  invalid date, \<open>Some (Some t)\<close> the time \<open>t\<close>.
\<close>

definition dateOf :: "runtime \<Rightarrow> string option \<Rightarrow> int option option" where
  "dateOf rt v = (if truthy v then Some (parseDate rt (the v)) else None)"

text \<open>\<open>endDate && endDate > now\<close>: an invalid date compares false.\<close>

definition laterThan :: "int option option \<Rightarrow> int \<Rightarrow> bool" where
  "laterThan endDate now = (case endDate of Some (Some t) \<Rightarrow> now < t | _ \<Rightarrow> False)"

text \<open>
  The test of \<open>ensureActiveWallet\<close> on an existing wallet: its end, \<open>walletEnd ?? currentEnd\<close>,
  is later than \<open>now\<close>.
\<close>

definition walletCurrent :: "runtime \<Rightarrow> SubscriptionDoc \<Rightarrow> QuotaWalletDoc \<Rightarrow> int \<Rightarrow> bool" where
  "walletCurrent rt subscription ew now =
     laterThan (orElse (dateOf rt (period_end ew)) (dateOf rt (current_period_end subscription))) now"

definition ensureActiveWallet ::
  "runtime \<Rightarrow> store \<Rightarrow> string \<Rightarrow> SubscriptionDoc \<Rightarrow> int \<Rightarrow> string \<Rightarrow> QuotaWalletDoc option \<times> store" where
  "ensureActiveWallet rt s uid subscription now newId =
     (if \<not> is_active subscription then (None, s)
      else case getPlanConfigById rt (plan_id subscription) of
        None \<Rightarrow> (None, s)
      | Some planConfig \<Rightarrow>
          let existingWallet = getActiveWallet s uid
          in if (case existingWallet of
                   None \<Rightarrow> False
                 | Some ew \<Rightarrow> walletCurrent rt subscription ew now)
             then (existingWallet, s)
             else if \<not> truthy (current_period_start subscription)
                     \<or> \<not> truthy (current_period_end subscription)
             then (existingWallet, s)
             else openWalletForSubscription rt
                    (closeWalletsForUser s uid ''period_reset'' False (toISOString rt now))
                    subscription True (toISOString rt now) newId)"

section \<open>Usage ledger: reserve, commit, rollback\<close>

definition rejectedResult :: "int \<Rightarrow> string option \<Rightarrow> ReserveResult" where
  "rejectedResult r w = \<lparr>allowed = False, status = rejected, remaining = r, walletId = w\<rparr>"

text \<open>The transaction of \<open>reserveUsage\<close> on the wallet document \<open>walletKey\<close>.\<close>

definition reserveTx ::
  "store \<Rightarrow> string \<Rightarrow> string \<Rightarrow> string \<Rightarrow> string \<Rightarrow> int \<Rightarrow> string \<Rightarrow> ReserveResult \<times> store" where
  "reserveTx s walletKey uid requestId act amt nowIso =
     (case getDoc w_id (wallets s) walletKey of
        None \<Rightarrow> (rejectedResult 0 None, s)
      | Some walletData \<Rightarrow>
          if w_status walletData \<noteq> W_active
          then (rejectedResult (max 0 (quota_total walletData - quota_used walletData))
                  (Some (w_id walletData)), s)
          else (case getDoc u_id (usages s) (usageDocId uid requestId) of
            Some existingUsage \<Rightarrow>
              (\<lparr>allowed = (u_status existingUsage \<noteq> rolled_back),
                status = Usage (u_status existingUsage),
                remaining = max 0 (quota_total walletData - quota_used walletData),
                walletId = Some (w_id walletData)\<rparr>, s)
          | None \<Rightarrow>
              let nextUsed = quota_used walletData + amt
              in if nextUsed > quota_total walletData
                 then (rejectedResult (max 0 (quota_total walletData - quota_used walletData))
                         (Some (w_id walletData)), s)
                 else (\<lparr>allowed = True,
                        status = Usage reserved,
                        remaining = max 0 (quota_total walletData - nextUsed),
                        walletId = Some (w_id walletData)\<rparr>,
                       s\<lparr>wallets :=
                            updateDoc w_id walletKey
                              (\<lambda>w. w\<lparr>quota_used := nextUsed,
                                      w_updated_at := nowIso,
                                      last_usage_at := Some nowIso\<rparr>)
                              (wallets s),
                          usages :=
                            setDoc u_id
                              \<lparr>u_id = usageDocId uid requestId,
                               u_user_id = uid,
                               wallet_id = w_id walletData,
                               request_id = requestId,
                               action = act,
                               amount = amt,
                               u_status = reserved,
                               u_created_at = nowIso,
                               u_updated_at = nowIso\<rparr>
                              (usages s)\<rparr>)))"

definition reserveUsage ::
  "runtime \<Rightarrow> store \<Rightarrow> string \<Rightarrow> string \<Rightarrow> string \<Rightarrow> int \<Rightarrow> int \<Rightarrow> string \<Rightarrow> ReserveResult \<times> store" where
  "reserveUsage rt s uid requestId act amt now newId =
     (if requestId = [] then (rejectedResult 0 None, s)
      else case getSubscription s uid of
        None \<Rightarrow> (rejectedResult 0 None, s)
      | Some subscription \<Rightarrow>
          if \<not> is_active subscription then (rejectedResult 0 None, s)
          else (case ensureActiveWallet rt s uid subscription now newId of
            (None, s1) \<Rightarrow> (rejectedResult 0 None, s1)
          | (Some wallet, s1) \<Rightarrow>
              reserveTx s1 (w_id wallet) uid requestId act amt (toISOString rt now)))"

definition commitUsage :: "runtime \<Rightarrow> store \<Rightarrow> string \<Rightarrow> string \<Rightarrow> int \<Rightarrow> UsageStatus option \<times> store" where
  "commitUsage rt s uid requestId now =
     (if requestId = [] then (None, s)
      else case getDoc u_id (usages s) (usageDocId uid requestId) of
        None \<Rightarrow> (None, s)
      | Some usage \<Rightarrow>
          if u_status usage = committed then (Some committed, s)
          else if u_status usage = rolled_back then (Some rolled_back, s)
          else (Some committed,
                s\<lparr>usages :=
                     updateDoc u_id (usageDocId uid requestId)
                       (\<lambda>u. u\<lparr>u_status := committed, u_updated_at := toISOString rt now\<rparr>)
                       (usages s)\<rparr>))"

definition rollbackUsage :: "runtime \<Rightarrow> store \<Rightarrow> string \<Rightarrow> string \<Rightarrow> int \<Rightarrow> UsageStatus option \<times> store" where
  "rollbackUsage rt s uid requestId now =
     (if requestId = [] then (None, s)
      else case getDoc u_id (usages s) (usageDocId uid requestId) of
        None \<Rightarrow> (None, s)
      | Some usage \<Rightarrow>
          if u_status usage = rolled_back then (Some rolled_back, s)
          else if u_status usage = committed then (Some committed, s)
          else (Some rolled_back,
                s\<lparr>wallets :=
                     updateDoc w_id (wallet_id usage)
                       (\<lambda>w. w\<lparr>quota_used := max 0 (quota_used w - amount usage),
                               w_updated_at := toISOString rt now\<rparr>)
                       (wallets s),
                   usages :=
                     updateDoc u_id (usageDocId uid requestId)
                       (\<lambda>u. u\<lparr>u_status := rolled_back, u_updated_at := toISOString rt now\<rparr>)
                       (usages s)\<rparr>))"

text \<open>
  A call of one of the three ledger operations, with the clock reading and (for a reserve)
  the id the store would assign to a wallet opened during the call.
\<close>

datatype operation =
    Reserve string string string int int string
  | Commit string string int
  | Rollback string string int

fun applyOperation :: "runtime \<Rightarrow> store \<Rightarrow> operation \<Rightarrow> store" where
  "applyOperation rt s (Reserve uid requestId act amt now newId) =
     snd (reserveUsage rt s uid requestId act amt now newId)"
| "applyOperation rt s (Commit uid requestId now) = snd (commitUsage rt s uid requestId now)"
| "applyOperation rt s (Rollback uid requestId now) = snd (rollbackUsage rt s uid requestId now)"

definition runOperations :: "runtime \<Rightarrow> store \<Rightarrow> operation list \<Rightarrow> store" where
  "runOperations rt s ops = foldl (applyOperation rt) s ops"

text \<open>The amount a call asks to reserve (none for a commit or a rollback).\<close>

fun reserveAmount :: "operation \<Rightarrow> int" where
  "reserveAmount (Reserve uid requestId act amt now newId) = amt"
| "reserveAmount (Commit uid requestId now) = 0"
| "reserveAmount (Rollback uid requestId now) = 0"

text \<open>
  Conditions of the data model, kept by the ledger operations: the wallet \<open>k\<close> exists
  with \<open>0 \<le> quota_used \<le> quota_total\<close>, usage amounts are not negative, and neither are
  the quotas of the plan catalog.
\<close>

definition walletOk :: "string \<Rightarrow> store \<Rightarrow> bool" where
  "walletOk k s \<longleftrightarrow>
     (\<exists>w. getDoc w_id (wallets s) k = Some w \<and> 0 \<le> quota_used w \<and> quota_used w \<le> quota_total w)"

definition usagesOk :: "store \<Rightarrow> bool" where
  "usagesOk s \<longleftrightarrow> (\<forall>u \<in> set (usages s). 0 \<le> amount u)"

definition quotasOk :: "runtime \<Rightarrow> bool" where
  "quotasOk rt \<longleftrightarrow> (\<forall>pid pc. getPlanConfigById rt pid = Some pc \<longrightarrow> 0 \<le> quota pc)"

section \<open>Webhook processor\<close>

text \<open>\<open>String.toUpperCase\<close> on the ASCII letters, which the event types consist of.\<close>

definition toUpperCase :: "string \<Rightarrow> string" where
  "toUpperCase v =
     map (\<lambda>c. case map_of (zip ''abcdefghijklmnopqrstuvwxyz'' ''ABCDEFGHIJKLMNOPQRSTUVWXYZ'') c of
                 Some u \<Rightarrow> u | None \<Rightarrow> c) v"

definition normalizeEventType :: "string \<Rightarrow> string" where
  "normalizeEventType v = toUpperCase (if v = [] then ''UNKNOWN'' else v)"

text \<open>The string \<open>composite\<close> that \<open>getWebhookEventId\<close> hashes.\<close>

definition webhookComposite :: "RevenueCatEventContext \<Rightarrow> string" where
  "webhookComposite payload =
     userId payload @ '':'' @ eventType payload @ '':''
       @ (case periodStart payload of None \<Rightarrow> [] | Some v \<Rightarrow> v) @ '':''
       @ (case periodEnd payload of None \<Rightarrow> [] | Some v \<Rightarrow> v)"

definition getWebhookEventId :: "runtime \<Rightarrow> RevenueCatEventContext \<Rightarrow> string" where
  "getWebhookEventId rt payload =
     (if truthy (eventId payload) then ''rc_'' @ the (eventId payload)
      else ''rc_'' @ toHash rt (webhookComposite payload))"

definition isPurchaseEvent :: "string \<Rightarrow> bool" where
  "isPurchaseEvent t \<longleftrightarrow>
     t \<in> set [''INITIAL_PURCHASE'', ''RENEWAL'', ''PRODUCT_CHANGE'', ''UNCANCELLATION'',
               ''SUBSCRIPTION_PURCHASE'']"

definition isCancellationEvent :: "string \<Rightarrow> bool" where
  "isCancellationEvent t \<longleftrightarrow> t \<in> set [''CANCELLATION'', ''CANCEL'', ''AUTO_RENEW_DISABLED'']"

definition isExpirationEvent :: "string \<Rightarrow> bool" where
  "isExpirationEvent t \<longleftrightarrow> t \<in> set [''EXPIRATION'', ''EXPIRE'']"

definition isRefundEvent :: "string \<Rightarrow> bool" where
  "isRefundEvent t \<longleftrightarrow> t \<in> set [''REFUND'', ''CHARGEBACK'']"

definition isBillingIssueEvent :: "string \<Rightarrow> bool" where
  "isBillingIssueEvent t \<longleftrightarrow>
     t \<in> set [''BILLING_ISSUE'', ''PAUSE'', ''BILLING_ISSUE_DETECTED'', ''GRACE_PERIOD'']"

definition shouldCloseWalletStatus :: "SubscriptionStatus \<Rightarrow> bool" where
  "shouldCloseWalletStatus st \<longleftrightarrow> st = S_expired \<or> st = S_refunded \<or> st = S_billing_issue"

text \<open>The string value of a subscription status (the wallet's \<open>closed_reason\<close>).\<close>

fun statusName :: "SubscriptionStatus \<Rightarrow> string" where
  "statusName S_active = ''active''"
| "statusName S_cancelled = ''cancelled''"
| "statusName S_expired = ''expired''"
| "statusName S_refunded = ''refunded''"
| "statusName S_billing_issue = ''billing_issue''"

definition eventStatus :: "string \<Rightarrow> SubscriptionDoc option \<Rightarrow> SubscriptionStatus" where
  "eventStatus t existing =
     (if isRefundEvent t then S_refunded
      else if isExpirationEvent t then S_expired
      else if isBillingIssueEvent t then S_billing_issue
      else if isCancellationEvent t then S_cancelled
      else if isPurchaseEvent t then S_active
      else (case existing of Some e \<Rightarrow> sub_status e | None \<Rightarrow> S_active))"

text \<open>
  What the state-transition transaction of \<open>processRevenueCatEvent\<close> computes from the
  existing subscription document: the document it writes and the side effects it records.
\<close>

record transition =
  updates :: SubscriptionDoc
  shouldOpenWallet :: bool
  shouldCloseWallet :: bool
  planChanged :: bool
  periodChanged :: bool

definition subscriptionTransition ::
  "runtime \<Rightarrow> SubscriptionDoc option \<Rightarrow> RevenueCatEventContext \<Rightarrow> string \<Rightarrow> PlanConfig option
     \<Rightarrow> string \<Rightarrow> transition" where
  "subscriptionTransition rt existing payload t planConfig nowIso =
     (let existingPlanId = Option.bind existing plan_id;
          nextPlan = orElse planConfig
                       (if truthy existingPlanId then getPlanConfigById rt existingPlanId else None);
          st = eventStatus t existing;
          isActive = (st = S_active \<or> st = S_cancelled);
          renew = (case willRenew payload of Some b \<Rightarrow> b | None \<Rightarrow> st = S_active);
          pStart = orElse (periodStart payload) (Option.bind existing current_period_start);
          pEnd = orElse (periodEnd payload) (Option.bind existing current_period_end);
          planCh = (case nextPlan of
                      None \<Rightarrow> False
                    | Some np \<Rightarrow> truthy existingPlanId \<and> Some (planId np) \<noteq> existingPlanId);
          periodCh = (truthy pEnd \<and> truthy (Option.bind existing current_period_end)
                        \<and> pEnd \<noteq> Option.bind existing current_period_end)
      in \<lparr>updates =
            \<lparr>sub_id = userId payload,
             sub_user_id = userId payload,
             platform = orElse (ev_platform payload) (Option.bind existing platform),
             rc_app_user_id = orElse (rcAppUserId payload) (Option.bind existing rc_app_user_id),
             product_id = orElse (productId payload) (Option.bind existing product_id),
             plan_id = orElse (map_option planId nextPlan) existingPlanId,
             plan_key = orElse (map_option planKey nextPlan) (Option.bind existing plan_key),
             sub_cycle = orElse (map_option cycle nextPlan) (Option.bind existing sub_cycle),
             entitlement_ids = entitlementIds payload,
             is_active = isActive,
             will_renew = renew,
             sub_status = st,
             current_period_start = pStart,
             current_period_end = pEnd,
             last_rc_event_at = Some nowIso,
             original_purchase_date =
               orElse (originalPurchaseDate payload) (Option.bind existing original_purchase_date),
             sub_updated_at = nowIso,
             sub_created_at = (case existing of Some e \<Rightarrow> sub_created_at e | None \<Rightarrow> nowIso)\<rparr>,
          shouldOpenWallet = (isActive \<and> (isPurchaseEvent t \<or> planCh \<or> periodCh)),
          shouldCloseWallet =
            (shouldCloseWalletStatus st \<and> (case existing of Some e \<Rightarrow> is_active e | None \<Rightarrow> False)),
          planChanged = planCh,
          periodChanged = periodCh\<rparr>)"

definition processRevenueCatEvent ::
  "runtime \<Rightarrow> store \<Rightarrow> RevenueCatEventContext \<Rightarrow> int \<Rightarrow> string \<Rightarrow> store" where
  "processRevenueCatEvent rt s payload now newId =
     (let t = normalizeEventType (eventType payload);
          eventDocId = getWebhookEventId rt payload;
          nowIso = toISOString rt now
      in case getDoc wh_id (webhook_events s) eventDocId of
           Some dup \<Rightarrow> s
         | None \<Rightarrow>
             let s1 = s\<lparr>webhook_events :=
                         setDoc wh_id
                           \<lparr>wh_id = eventDocId,
                            rc_event_id = (case eventId payload of Some e \<Rightarrow> e | None \<Rightarrow> eventDocId),
                            event_type = t,
                            wh_rc_app_user_id = rcAppUserId payload,
                            received_at = nowIso,
                            processed_at = None,
                            payload_json = (case rawEvent payload of Some j \<Rightarrow> j | None \<Rightarrow> ''{}''),
                            wh_status = received\<rparr>
                           (webhook_events s)\<rparr>;
                 planConfig = orElse (resolvePlanConfig rt (productId payload))
                                (getPlanConfigById rt (productId payload));
                 tr = subscriptionTransition rt (getDoc sub_id (subscriptions s1) (userId payload))
                        payload t planConfig nowIso;
                 nextSubscription = updates tr;
                 s2 = s1\<lparr>subscriptions := setDoc sub_id nextSubscription (subscriptions s1)\<rparr>;
                 s3 = (if shouldCloseWallet tr
                       then closeWalletsForUser s2 (sub_user_id nextSubscription)
                              (statusName (sub_status nextSubscription)) True nowIso
                       else s2);
                 s4 = (if shouldOpenWallet tr
                       then snd (openWalletForSubscription rt s3 nextSubscription
                                   (planChanged tr \<or> periodChanged tr) nowIso newId)
                       else s3)
             in s4\<lparr>webhook_events :=
                      updateDoc wh_id eventDocId
                        (\<lambda>d. d\<lparr>processed_at := Some nowIso, wh_status := processed\<rparr>)
                        (webhook_events s4)\<rparr>)"

text \<open>A series of deliveries: each with its payload, clock reading and wallet id on offer.\<close>

definition processAll ::
  "runtime \<Rightarrow> store \<Rightarrow> (RevenueCatEventContext \<times> int \<times> string) list \<Rightarrow> store" where
  "processAll rt s calls =
     foldl (\<lambda>s (payload, now, newId). processRevenueCatEvent rt s payload now newId) s calls"

text \<open>
  The wallet-opening decision as the spec words it (section 4.6), to compare with the
  one \<open>subscriptionTransition\<close> computes: \<open>planChanged = (resolved.planId \<noteq>
  existing.planId)\<close>, the plan being resolved from the payload's product id and, failing
  that, from the existing plan id; \<open>periodChanged = (payload.periodEnd present and differs
  from existing.currentPeriodEnd)\<close>; \<open>shouldOpenWallet = isActive AND (eventIsPurchase OR
  planChanged OR periodChanged)\<close>.
\<close>

definition specShouldOpenWallet ::
  "runtime \<Rightarrow> SubscriptionDoc option \<Rightarrow> RevenueCatEventContext \<Rightarrow> bool" where
  "specShouldOpenWallet rt existing payload =
     (let t = normalizeEventType (eventType payload);
          existingPlanId = Option.bind existing plan_id;
          resolved = orElse (orElse (resolvePlanConfig rt (productId payload))
                               (getPlanConfigById rt (productId payload)))
                       (getPlanConfigById rt existingPlanId);
          st = eventStatus t existing;
          isActive = (st = S_active \<or> st = S_cancelled);
          planCh = (map_option planId resolved \<noteq> existingPlanId);
          periodCh = (periodEnd payload \<noteq> None
                        \<and> periodEnd payload \<noteq> Option.bind existing current_period_end)
      in isActive \<and> (isPurchaseEvent t \<or> planCh \<or> periodCh))"

text \<open>
  The event document id as the spec words it (sections 3 and 4.6): \<open>rc_\<close> and the
  provider's event id if present, else \<open>rc_\<close> and the hash of user id, uppercased event
  type, period start and period end.
\<close>

definition specWebhookEventId :: "runtime \<Rightarrow> RevenueCatEventContext \<Rightarrow> string" where
  "specWebhookEventId rt payload =
     (case eventId payload of
        Some e \<Rightarrow> ''rc_'' @ e
      | None \<Rightarrow>
          ''rc_'' @ toHash rt
            (userId payload @ '':'' @ normalizeEventType (eventType payload) @ '':''
               @ (case periodStart payload of None \<Rightarrow> [] | Some v \<Rightarrow> v) @ '':''
               @ (case periodEnd payload of None \<Rightarrow> [] | Some v \<Rightarrow> v)))"

section \<open>Dates and the plan sync\<close>

text \<open>
  The operations of the runtime's \<open>Date\<close> that \<open>syncQuotaFromPlan\<close> calls
  (\<open>getUTCFullYear\<close>, \<open>getUTCMonth\<close>, \<open>getUTCDate\<close>, \<open>Date.UTC\<close>), as ECMAScript defines
  them: a time value is a number of milliseconds since 1 January 1970 UTC, months count
  from 0.  \<open>YearFromTime\<close> is the largest year whose first day is not after the time; it
  is searched upwards from an estimate that is never too large.  \<open>Date.UTC\<close> maps the
  years 0 to 99 to 1900 to 1999; its clipping of times beyond the range of \<open>Date\<close> is left
  out.
\<close>

definition msPerDay :: int where
  "msPerDay = 86400000"

definition Day :: "int \<Rightarrow> int" where
  "Day t = t div msPerDay"

definition TimeWithinDay :: "int \<Rightarrow> int" where
  "TimeWithinDay t = t mod msPerDay"

definition DaysInYear :: "int \<Rightarrow> int" where
  "DaysInYear y =
     (if y mod 4 \<noteq> 0 then 365 else if y mod 100 \<noteq> 0 then 366
      else if y mod 400 \<noteq> 0 then 365 else 366)"

definition DayFromYear :: "int \<Rightarrow> int" where
  "DayFromYear y = 365 * (y - 1970) + (y - 1969) div 4 - (y - 1901) div 100 + (y - 1601) div 400"

text \<open>Each year begins 365 or 366 days after the one before: the search below ends.\<close>

lemma div_add1:
  fixes a c :: int
  assumes "0 < c"
  shows "(a + 1) div c = a div c + (if (a + 1) mod c = 0 then 1 else 0)"
proof -
  define q r where "q = a div c" and "r = a mod c"
  have a: "a = c * q + r" by (simp add: q_def r_def)
  have r: "0 \<le> r" "r < c" using assms by (simp_all add: r_def)
  show ?thesis
  proof (cases "r + 1 = c")
    case True
    have e: "a + 1 = c * (q + 1) + 0" using a True by (simp add: algebra_simps)
    have "(a + 1) div c = q + 1" using e _ assms by (rule int_div_pos_eq) simp
    moreover have "(a + 1) mod c = 0" using e _ assms by (rule int_mod_pos_eq) simp
    ultimately show ?thesis by (simp add: q_def)
  next
    case False
    have e: "a + 1 = c * q + (r + 1)" using a by simp
    have lt: "r + 1 < c" using r False by simp
    have nn: "0 \<le> r + 1" using r by simp
    have "(a + 1) div c = q" using e nn lt by (rule int_div_pos_eq)
    moreover have "(a + 1) mod c = r + 1" using e nn lt by (rule int_mod_pos_eq)
    ultimately show ?thesis using r by (simp add: q_def)
  qed
qed

lemma mod_shift: "((y::int) - c * k) mod c = y mod c"
proof -
  have "y - c * k = y + c * (- k)" by simp
  then show ?thesis by (simp only: mod_mult_self2)
qed

lemma DayFromYear_Suc: "DayFromYear (y + 1) = DayFromYear y + DaysInYear y"
proof -
  have m4: "(y - 1969 + 1) mod 4 = y mod 4"
    using mod_shift [of y 4 492] by simp
  have m100: "(y - 1901 + 1) mod 100 = y mod 100"
    using mod_shift [of y 100 19] by simp
  have m400: "(y - 1601 + 1) mod 400 = y mod 400"
    using mod_shift [of y 400 4] by simp
  have a: "(y + 1 - 1969) div 4 = (y - 1969) div 4 + (if y mod 4 = 0 then 1 else 0)"
    using div_add1 [of 4 "y - 1969"] m4 by (simp add: algebra_simps)
  have b: "(y + 1 - 1901) div 100 = (y - 1901) div 100 + (if y mod 100 = 0 then 1 else 0)"
    using div_add1 [of 100 "y - 1901"] m100 by (simp add: algebra_simps)
  have c: "(y + 1 - 1601) div 400 = (y - 1601) div 400 + (if y mod 400 = 0 then 1 else 0)"
    using div_add1 [of 400 "y - 1601"] m400 by (simp add: algebra_simps)
  have d: "y mod 100 = 0 \<Longrightarrow> y mod 4 = 0" by auto
  have e: "y mod 400 = 0 \<Longrightarrow> y mod 100 = 0" by auto
  show ?thesis
    unfolding DayFromYear_def DaysInYear_def a b c using d e by auto
qed

lemma DaysInYear_bounds: "365 \<le> DaysInYear y" "DaysInYear y \<le> 366"
  by (simp_all add: DaysInYear_def)

lemma DayFromYear_step: "DayFromYear y + 365 \<le> DayFromYear (y + 1)"
  "DayFromYear (y + 1) \<le> DayFromYear y + 366"
  using DaysInYear_bounds [of y] by (simp_all add: DayFromYear_Suc)

function yearFrom :: "int \<Rightarrow> int \<Rightarrow> int" where
  "yearFrom d y = (if DayFromYear (y + 1) \<le> d then yearFrom d (y + 1) else y)"
  by pat_completeness auto
termination
proof (relation "measure (\<lambda>(d, y). nat (d + 1 - DayFromYear (y + 1)))")
  show "wf (measure (\<lambda>(d, y). nat (d + 1 - DayFromYear (y + 1))))" by simp
next
  fix d y :: int
  assume "DayFromYear (y + 1) \<le> d"
  then show "((d, y + 1), (d, y)) \<in> measure (\<lambda>(d, y). nat (d + 1 - DayFromYear (y + 1)))"
    using DayFromYear_step(1) [of "y + 1"] by (simp add: add.commute)
qed

definition YearFromDay :: "int \<Rightarrow> int" where
  "YearFromDay d = yearFrom d (1970 + (if 0 \<le> d then d div 366 else d div 365))"

definition YearFromTime :: "int \<Rightarrow> int" where
  "YearFromTime t = YearFromDay (Day t)"

definition InLeapYear :: "int \<Rightarrow> int" where
  "InLeapYear t = (if DaysInYear (YearFromTime t) = 366 then 1 else 0)"

definition DayWithinYear :: "int \<Rightarrow> int" where
  "DayWithinYear t = Day t - DayFromYear (YearFromTime t)"

definition monthOfDay :: "int \<Rightarrow> int \<Rightarrow> int" where
  "monthOfDay d l =
     (if d < 31 then 0 else if d < 59 + l then 1 else if d < 90 + l then 2
      else if d < 120 + l then 3 else if d < 151 + l then 4 else if d < 181 + l then 5
      else if d < 212 + l then 6 else if d < 243 + l then 7 else if d < 273 + l then 8
      else if d < 304 + l then 9 else if d < 334 + l then 10 else 11)"

definition MonthFromTime :: "int \<Rightarrow> int" where
  "MonthFromTime t = monthOfDay (DayWithinYear t) (InLeapYear t)"

definition dateOfDay :: "int \<Rightarrow> int \<Rightarrow> int" where
  "dateOfDay d l =
     (let m = monthOfDay d l
      in if m = 0 then d + 1 else if m = 1 then d - 30 else if m = 2 then d - 58 - l
         else if m = 3 then d - 89 - l else if m = 4 then d - 119 - l
         else if m = 5 then d - 150 - l else if m = 6 then d - 180 - l
         else if m = 7 then d - 211 - l else if m = 8 then d - 242 - l
         else if m = 9 then d - 272 - l else if m = 10 then d - 303 - l else d - 333 - l)"

definition DateFromTime :: "int \<Rightarrow> int" where
  "DateFromTime t = dateOfDay (DayWithinYear t) (InLeapYear t)"

definition monthStart :: "int \<Rightarrow> int \<Rightarrow> int" where
  "monthStart m l =
     (if m = 0 then 0 else if m = 1 then 31 else if m = 2 then 59 + l
      else if m = 3 then 90 + l else if m = 4 then 120 + l else if m = 5 then 151 + l
      else if m = 6 then 181 + l else if m = 7 then 212 + l else if m = 8 then 243 + l
      else if m = 9 then 273 + l else if m = 10 then 304 + l else 334 + l)"

definition MakeDay :: "int \<Rightarrow> int \<Rightarrow> int \<Rightarrow> int" where
  "MakeDay year month date =
     (let ym = year + month div 12;
          mn = month mod 12
      in DayFromYear ym + monthStart mn (if DaysInYear ym = 366 then 1 else 0) + date - 1)"

definition MakeDate :: "int \<Rightarrow> int \<Rightarrow> int" where
  "MakeDate day time = day * msPerDay + time"

definition DateUTC :: "int \<Rightarrow> int \<Rightarrow> int \<Rightarrow> int" where
  "DateUTC year month date =
     MakeDate (MakeDay (if 0 \<le> year \<and> year \<le> 99 then 1900 + year else year) month date) 0"

definition syncPeriodEnd :: "PlanCycle \<Rightarrow> int \<Rightarrow> int" where
  "syncPeriodEnd c now =
     (if c = monthly then DateUTC (YearFromTime now) (MonthFromTime now + 1) 1
      else DateUTC (YearFromTime now + 1) (MonthFromTime now) (DateFromTime now))"

definition daysInMonth :: "int \<Rightarrow> int \<Rightarrow> int" where
  "daysInMonth m l =
     (if m = 1 then 28 + l else if m = 3 \<or> m = 5 \<or> m = 8 \<or> m = 10 then 30 else 31)"

text \<open>\<open>resolvePlanId\<close> and \<open>syncQuotaFromPlan\<close>, with the period end it computes.\<close>

definition resolvePlanId :: "runtime \<Rightarrow> string option \<Rightarrow> string option" where
  "resolvePlanId rt candidate = map_option planId (resolvePlanConfig rt candidate)"

definition syncQuotaFromPlan ::
  "runtime \<Rightarrow> store \<Rightarrow> string \<Rightarrow> string option \<Rightarrow> int \<Rightarrow> string \<Rightarrow> store" where
  "syncQuotaFromPlan rt s uid planIdCandidate now newId =
     (let pid = resolvePlanId rt planIdCandidate
      in case (if truthy pid then getPlanConfigById rt pid else None) of
           None \<Rightarrow> s
         | Some planConfig \<Rightarrow>
             let nowIso = toISOString rt now;
                 pStart = nowIso;
                 pEnd = toISOString rt (syncPeriodEnd (cycle planConfig) now);
                 paid = (planId planConfig \<noteq> ''free'');
                 subscription =
                   \<lparr>sub_id = uid,
                    sub_user_id = uid,
                    platform = None,
                    rc_app_user_id = None,
                    product_id = planIdCandidate,
                    plan_id = Some (planId planConfig),
                    plan_key = Some (planKey planConfig),
                    sub_cycle = Some (cycle planConfig),
                    entitlement_ids = [],
                    is_active = paid,
                    will_renew = paid,
                    sub_status = (if paid then S_active else S_expired),
                    current_period_start = Some pStart,
                    current_period_end = Some pEnd,
                    last_rc_event_at = Some nowIso,
                    original_purchase_date = Some nowIso,
                    sub_updated_at = nowIso,
                    sub_created_at = nowIso\<rparr>;
                 s1 = s\<lparr>subscriptions := setDoc sub_id subscription (subscriptions s)\<rparr>
             in if paid
                then snd (openWalletForSubscription rt s1
                            (subscription\<lparr>is_active := True, will_renew := True,
                               sub_status := S_active\<rparr>)
                            True nowIso newId)
                else s1)"

section \<open>Plan catalog\<close>

text \<open>
  The module \<open>config/quotaConfig\<close>.  \<open>String.toLowerCase\<close> is given on the ASCII letters and
  \<open>String.trim\<close> on the ASCII white space, which is all that plan and product ids are
  written in; \<open>includesStr v p\<close> is \<open>v.includes(p)\<close>.
\<close>

definition toLowerCase :: "string \<Rightarrow> string" where
  "toLowerCase v =
     map (\<lambda>c. case map_of (zip ''ABCDEFGHIJKLMNOPQRSTUVWXYZ'' ''abcdefghijklmnopqrstuvwxyz'') c of
                 Some l \<Rightarrow> l | None \<Rightarrow> c) v"

definition isWhitespace :: "char \<Rightarrow> bool" where
  "isWhitespace c \<longleftrightarrow> c \<in> set [CHR '' '', CHR 0x09, CHR 0x0A, CHR 0x0B, CHR 0x0C, CHR 0x0D]"

definition trim :: "string \<Rightarrow> string" where
  "trim v = rev (dropWhile isWhitespace (rev (dropWhile isWhitespace v)))"

fun startsWith :: "string \<Rightarrow> string \<Rightarrow> bool" where
  "startsWith v [] = True"
| "startsWith [] (p # ps) = False"
| "startsWith (c # cs) (p # ps) = (c = p \<and> startsWith cs ps)"

fun includesStr :: "string \<Rightarrow> string \<Rightarrow> bool" where
  "includesStr [] p = (p = [])"
| "includesStr (c # cs) p = (startsWith (c # cs) p \<or> includesStr cs p)"

text \<open>The table \<open>DEFAULT_PLAN_CONFIG\<close>.\<close>

definition DEFAULT_PLAN_CONFIG :: "PlanConfig list" where
  "DEFAULT_PLAN_CONFIG =
     [\<lparr>planId = ''free'', planKey = ''free'', cycle = monthly, quota = 2, productIds = []\<rparr>,
      \<lparr>planId = ''premium_monthly'', planKey = ''base'', cycle = monthly, quota = 100,
       productIds = [''ai_or_real_premium:aiorreal-monthly'', ''aiorreal-monthly'']\<rparr>,
      \<lparr>planId = ''premium_yearly'', planKey = ''pro'', cycle = yearly, quota = 1000,
       productIds = [''ai_or_real_premium:aiorreal-yearly'', ''aiorreal-yearly'']\<rparr>]"

text \<open>
  \<open>parsePlanConfig\<close> builds \<open>PLAN_CONFIG\<close> from the environment variable
  \<open>QUOTA_PLAN_CONFIG\<close>.  \<open>JSON.parse\<close> is a parameter; its outcome is an array, an object
  whose field \<open>plans\<close> is an array, any other value, or a syntax error.  The code casts
  the array to \<open>PlanConfig[]\<close> without looking at its elements: here they are plans.
\<close>

datatype ParsedJson = JsonArray "PlanConfig list" | JsonPlansObject "PlanConfig list"
  | JsonOther | JsonSyntaxError

definition parsePlanConfig :: "(string \<Rightarrow> ParsedJson) \<Rightarrow> string option \<Rightarrow> PlanConfig list" where
  "parsePlanConfig jsonParse rawValue =
     (if \<not> truthy rawValue then DEFAULT_PLAN_CONFIG
      else (case jsonParse (the rawValue) of
              JsonArray parsed \<Rightarrow> parsed
            | JsonPlansObject plans \<Rightarrow> plans
            | JsonOther \<Rightarrow> DEFAULT_PLAN_CONFIG
            | JsonSyntaxError \<Rightarrow> DEFAULT_PLAN_CONFIG))"

text \<open>
  \<open>getPlanConfigById\<close> and \<open>resolvePlanConfig\<close>; the first argument is the table
  \<open>PLAN_CONFIG\<close>.
\<close>

definition getPlanConfigById_impl :: "PlanConfig list \<Rightarrow> string option \<Rightarrow> PlanConfig option" where
  "getPlanConfigById_impl PLAN_CONFIG pid =
     (if \<not> truthy pid then None
      else let normalized = trim (toLowerCase (the pid))
           in find (\<lambda>plan. toLowerCase (planId plan) = normalized) PLAN_CONFIG)"

definition resolvePlanConfig_impl :: "PlanConfig list \<Rightarrow> string option \<Rightarrow> PlanConfig option" where
  "resolvePlanConfig_impl PLAN_CONFIG candidate =
     (if \<not> truthy candidate then None
      else let normalized = trim (toLowerCase (the candidate))
           in if normalized = [] then None
              else if includesStr normalized ''aiorreal-monthly''
              then getPlanConfigById_impl PLAN_CONFIG (Some ''premium_monthly'')
              else if includesStr normalized ''aiorreal-yearly''
                      \<or> includesStr normalized ''aiorreal-annual''
              then getPlanConfigById_impl PLAN_CONFIG (Some ''premium_yearly'')
              else (case find (\<lambda>plan. toLowerCase (planId plan) = normalized) PLAN_CONFIG of
                      Some plan \<Rightarrow> Some plan
                    | None \<Rightarrow>
                        find (\<lambda>plan. list_ex (\<lambda>i. includesStr normalized (toLowerCase i))
                                       (productIds plan))
                          PLAN_CONFIG))"

section \<open>A runtime and a store for worked examples\<close>

text \<open>
  The catalog with \<open>QUOTA_PLAN_CONFIG\<close> unset, so that \<open>PLAN_CONFIG\<close> is the default
  table, and the values of \<open>new Date(s).getTime()\<close>, \<open>toISOString\<close> and SHA-256 at the
  arguments the examples use.
\<close>

definition PLAN_CONFIG_unset :: "PlanConfig list" where
  "PLAN_CONFIG_unset = parsePlanConfig (\<lambda>v. JsonSyntaxError) None"

definition sampleDates :: "(string \<times> int) list" where
  "sampleDates =
     [(''2024-02-29T12:00:00.000Z'', 1709208000000),
      (''2025-01-01T00:00:00.000Z'', 1735689600000),
      (''2025-01-15T12:00:00.000Z'', 1736942400000),
      (''2025-01-31T12:00:00.000Z'', 1738324800000),
      (''2025-02-01T00:00:00.000Z'', 1738368000000),
      (''2025-02-15T12:00:00.000Z'', 1739620800000),
      (''2025-03-01T00:00:00.000Z'', 1740787200000)]"

definition sampleHashes :: "(string \<times> string) list" where
  "sampleHashes =
     [(''u1:renewal::'', ''a2f61c9cc1fd73c4b33e901208ce1374c85309cb3bdf0bdc7ab6f0280ca7d00a''),
      (''u1:RENEWAL::'', ''9e29efc62f56e19f162fac2324b57dccfc7deaa1d4342c6f536b5fbbaf3aa989'')]"

definition sampleRuntime :: runtime where
  "sampleRuntime =
     \<lparr>resolvePlanConfig = resolvePlanConfig_impl PLAN_CONFIG_unset,
      getPlanConfigById = getPlanConfigById_impl PLAN_CONFIG_unset,
      parseDate = map_of sampleDates,
      toISOString = (\<lambda>t. case map_of (map (\<lambda>(v, ms). (ms, v)) sampleDates) t of
                           Some v \<Rightarrow> v | None \<Rightarrow> []),
      toHash = (\<lambda>v. case map_of sampleHashes v of Some h \<Rightarrow> h | None \<Rightarrow> [])\<rparr>"

definition sampleSubscription :: SubscriptionDoc where
  "sampleSubscription =
     \<lparr>sub_id = ''u1'',
      sub_user_id = ''u1'',
      platform = None,
      rc_app_user_id = None,
      product_id = Some ''premium_monthly'',
      plan_id = Some ''premium_monthly'',
      plan_key = Some ''base'',
      sub_cycle = Some monthly,
      entitlement_ids = [],
      is_active = True,
      will_renew = True,
      sub_status = S_active,
      current_period_start = Some ''2025-01-01T00:00:00.000Z'',
      current_period_end = Some ''2025-02-01T00:00:00.000Z'',
      last_rc_event_at = Some ''2025-01-01T00:00:00.000Z'',
      original_purchase_date = Some ''2025-01-01T00:00:00.000Z'',
      sub_updated_at = ''2025-01-01T00:00:00.000Z'',
      sub_created_at = ''2025-01-01T00:00:00.000Z''\<rparr>"

definition sampleWallet :: QuotaWalletDoc where
  "sampleWallet =
     \<lparr>w_id = ''w1'',
      w_user_id = ''u1'',
      subscription_id = Some ''u1'',
      w_plan_id = Some ''premium_monthly'',
      scope = monthly,
      period_start = Some ''2025-01-01T00:00:00.000Z'',
      period_end = Some ''2025-02-01T00:00:00.000Z'',
      quota_total = 100,
      quota_used = 5,
      w_status = W_active,
      last_usage_at = None,
      w_created_at = ''2025-01-01T00:00:00.000Z'',
      w_updated_at = ''2025-01-01T00:00:00.000Z'',
      closed_reason = None\<rparr>"

definition sampleStore :: store where
  "sampleStore =
     \<lparr>subscriptions = [sampleSubscription],
      wallets = [sampleWallet],
      usages = [],
      webhook_events = []\<rparr>"

text \<open>The store after a first reservation \<open>r1\<close> by \<open>u1\<close>, and after its commit.\<close>

definition reservedStore :: store where
  "reservedStore =
     snd (reserveUsage sampleRuntime sampleStore ''u1'' ''r1'' ''ai_detect'' 1 1736942400000 ''w2'')"

definition committedStore :: store where
  "committedStore = snd (commitUsage sampleRuntime reservedStore ''u1'' ''r1'' 1736942400000)"

text \<open>An active subscription whose plan id is not in the catalog.\<close>

definition orphanSubscription :: SubscriptionDoc where
  "orphanSubscription = sampleSubscription\<lparr>plan_id := Some ''enterprise''\<rparr>"

definition orphanStore :: store where
  "orphanStore = sampleStore\<lparr>subscriptions := [orphanSubscription]\<rparr>"

text \<open>A wallet one unit below its total, and the store after that unit is reserved.\<close>

definition boundaryStore :: store where
  "boundaryStore = sampleStore\<lparr>wallets := [sampleWallet\<lparr>quota_used := 99\<rparr>]\<rparr>"

definition fullWallet :: QuotaWalletDoc where
  "fullWallet =
     sampleWallet\<lparr>quota_used := 100,
       w_updated_at := ''2025-01-15T12:00:00.000Z'',
       last_usage_at := Some ''2025-01-15T12:00:00.000Z''\<rparr>"

definition fullStore :: store where
  "fullStore =
     snd (reserveUsage sampleRuntime boundaryStore ''u1'' ''r1'' ''ai_detect'' 1 1736942400000 ''w2'')"

text \<open>The store after the reservation \<open>r1\<close> is rolled back.\<close>

definition rolledBackStore :: store where
  "rolledBackStore = snd (rollbackUsage sampleRuntime reservedStore ''u1'' ''r1'' 1736942400000)"

text \<open>
  A request \<open>r9\<close> for 200 units, more than any wallet of the plan holds, made on
  2025-02-15, after the period end of the wallet \<open>w1\<close>: the store the call leaves.
\<close>

definition overQuotaStore :: store where
  "overQuotaStore =
     snd (reserveUsage sampleRuntime sampleStore ''u1'' ''r9'' ''ai_detect'' 200 1739620800000 ''w2'')"

text \<open>
  The committed request \<open>r1\<close> reserved again on 2025-02-15, after the wallet's period end:
  the store it leaves, the wallet opened by the rollover, and the usage document found.
\<close>

definition replayStore :: store where
  "replayStore =
     snd (reserveUsage sampleRuntime committedStore ''u1'' ''r1'' ''ai_detect'' 1 1739620800000 ''w2'')"

definition renewedWallet :: QuotaWalletDoc where
  "renewedWallet =
     \<lparr>w_id = ''w2'',
      w_user_id = ''u1'',
      subscription_id = Some ''u1'',
      w_plan_id = Some ''premium_monthly'',
      scope = monthly,
      period_start = Some ''2025-01-01T00:00:00.000Z'',
      period_end = Some ''2025-02-01T00:00:00.000Z'',
      quota_total = 100,
      quota_used = 0,
      w_status = W_active,
      last_usage_at = None,
      w_created_at = ''2025-02-15T12:00:00.000Z'',
      w_updated_at = ''2025-02-15T12:00:00.000Z'',
      closed_reason = None\<rparr>"

definition committedUsage :: QuotaUsageDoc where
  "committedUsage =
     \<lparr>u_id = ''u1_r1'',
      u_user_id = ''u1'',
      wallet_id = ''w1'',
      request_id = ''r1'',
      action = ''ai_detect'',
      amount = 1,
      u_status = committed,
      u_created_at = ''2025-01-15T12:00:00.000Z'',
      u_updated_at = ''2025-01-15T12:00:00.000Z''\<rparr>"

text \<open>A sequence of ledger calls by \<open>u1\<close>; the last one asks for more than the quota.\<close>

definition sampleOperations :: "operation list" where
  "sampleOperations =
     [Reserve ''u1'' ''r1'' ''ai_detect'' 1 1736942400000 ''w2'',
      Commit ''u1'' ''r1'' 1736942400000,
      Reserve ''u1'' ''r2'' ''ai_detect'' 1 1736942400000 ''w3'',
      Rollback ''u1'' ''r2'' 1736942400000,
      Rollback ''u1'' ''r1'' 1736942400000,
      Reserve ''u1'' ''r3'' ''ai_detect'' 200 1736942400000 ''w4'']"

text \<open>A renewal of \<open>u1\<close> for February 2025, and the store after it is processed.\<close>

definition renewalEvent :: RevenueCatEventContext where
  "renewalEvent =
     \<lparr>userId = ''u1'',
      eventId = Some ''E1'',
      eventType = ''RENEWAL'',
      rcAppUserId = Some ''u1'',
      productId = Some ''premium_monthly'',
      entitlementIds = [''premium''],
      ev_platform = Some ''ios'',
      willRenew = Some True,
      periodStart = Some ''2025-02-01T00:00:00.000Z'',
      periodEnd = Some ''2025-03-01T00:00:00.000Z'',
      originalPurchaseDate = None,
      rawEvent = None\<rparr>"

definition renewedStore :: store where
  "renewedStore = processRevenueCatEvent sampleRuntime sampleStore renewalEvent 1738368000000 ''w2''"

text \<open>A first event of a user without subscription, of a type outside every category.\<close>

definition nonRenewingEvent :: RevenueCatEventContext where
  "nonRenewingEvent =
     \<lparr>userId = ''u2'',
      eventId = Some ''E2'',
      eventType = ''NON_RENEWING_PURCHASE'',
      rcAppUserId = Some ''u2'',
      productId = Some ''premium_monthly'',
      entitlementIds = [],
      ev_platform = None,
      willRenew = None,
      periodStart = Some ''2025-01-15T12:00:00.000Z'',
      periodEnd = Some ''2025-02-15T12:00:00.000Z'',
      originalPurchaseDate = None,
      rawEvent = None\<rparr>"

definition premiumMonthly :: PlanConfig where
  "premiumMonthly =
     \<lparr>planId = ''premium_monthly'', planKey = ''base'', cycle = monthly, quota = 100,
      productIds = [''ai_or_real_premium:aiorreal-monthly'', ''aiorreal-monthly'']\<rparr>"

text \<open>An event without provider id whose type arrives in lower case.\<close>

definition lowercaseEvent :: RevenueCatEventContext where
  "lowercaseEvent =
     \<lparr>userId = ''u1'',
      eventId = None,
      eventType = ''renewal'',
      rcAppUserId = None,
      productId = Some ''premium_monthly'',
      entitlementIds = [],
      ev_platform = None,
      willRenew = None,
      periodStart = None,
      periodEnd = None,
      originalPurchaseDate = None,
      rawEvent = None\<rparr>"

section \<open>Results\<close>

lemma getDoc_updateDoc:
  assumes "\<And>d. key d = k \<Longrightarrow> key (f d) = k"
  shows "getDoc key (updateDoc key k f ds) k' =
           (if k' = k then map_option f (getDoc key ds k) else getDoc key ds k')"
  using assms by (induction ds) (auto simp: getDoc_def updateDoc_def)

lemma getDoc_key: "getDoc key ds k = Some d \<Longrightarrow> key d = k"
  by (induction ds) (auto simp: getDoc_def split: if_splits)

lemma getDoc_mem: "getDoc key ds k = Some d \<Longrightarrow> d \<in> set ds"
  by (induction ds) (auto simp: getDoc_def split: if_splits)

lemma getDoc_distinct: "distinct (map key ds) \<Longrightarrow> d \<in> set ds \<Longrightarrow> getDoc key ds (key d) = Some d"
  by (induction ds) (auto simp: getDoc_def)

lemma getDoc_None: "getDoc key ds k = None \<longleftrightarrow> k \<notin> key ` set ds"
  by (induction ds) (auto simp: getDoc_def)

lemma getDoc_map:
  assumes "\<And>d. key (g d) = key d"
  shows "getDoc key (map g ds) k = map_option g (getDoc key ds k)"
  using assms by (induction ds) (auto simp: getDoc_def)

lemma getDoc_append:
  "getDoc key (ds @ [d]) k =
     (case getDoc key ds k of Some x \<Rightarrow> Some x | None \<Rightarrow> if key d = k then Some d else None)"
  by (induction ds) (auto simp: getDoc_def)

lemma getDoc_setDoc:
  "getDoc key (setDoc key d ds) k = (if k = key d then Some d else getDoc key ds k)"
  by (auto simp: setDoc_def getDoc_append getDoc_updateDoc split: option.splits)

lemma pick_mem: "foldl (\<lambda>best x. if P x best then x else best) w ws \<in> set (w # ws)"
  by (induction ws arbitrary: w) auto

lemma getActiveWallet_mem:
  assumes "getActiveWallet s uid = Some w"
  shows "w \<in> set (wallets s) \<and> w_user_id w = uid \<and> w_status w = W_active"
proof -
  let ?P = "\<lambda>w. w_user_id w = uid \<and> w_status w = W_active"
  obtain x xs where f: "filter ?P (wallets s) = x # xs"
    and w: "w = foldl (\<lambda>best x. if wallet_before x best then x else best) x xs"
    using assms by (auto simp: getActiveWallet_def split: list.splits)
  have "w \<in> set (x # xs)" unfolding w by (rule pick_mem)
  then have "w \<in> set (filter ?P (wallets s))" using f by simp
  then show ?thesis by simp
qed

lemma pick_map:
  assumes "\<And>x y. P (g x) (g y) = P x y"
  shows "foldl (\<lambda>best x. if P x best then x else best) (g w) (map g ws)
           = g (foldl (\<lambda>best x. if P x best then x else best) w ws)"
  using assms by (induction ws arbitrary: w) auto

lemma getActiveWallet_map:
  assumes "wallets s' = map g (wallets s)"
    and "\<And>w. w_user_id (g w) = w_user_id w" "\<And>w. w_status (g w) = w_status w"
    and "\<And>w. period_end (g w) = period_end w" "\<And>w. w_id (g w) = w_id w"
  shows "getActiveWallet s' uid = map_option g (getActiveWallet s uid)"
proof -
  let ?P = "\<lambda>w. w_user_id w = uid \<and> w_status w = W_active"
  have f: "filter ?P (wallets s') = map g (filter ?P (wallets s))"
    by (simp add: filter_map o_def assms)
  have wb: "\<And>x y. wallet_before (g x) (g y) = wallet_before x y"
    by (simp add: wallet_before_def assms)
  show ?thesis
    by (cases "filter ?P (wallets s)")
      (simp_all add: getActiveWallet_def f pick_map [of wallet_before g, OF wb])
qed

lemma ensureActiveWallet_current:
  assumes "is_active subscription" "getPlanConfigById rt (plan_id subscription) = Some pc"
    "getActiveWallet s uid = Some ew" "walletCurrent rt subscription ew now"
  shows "ensureActiveWallet rt s uid subscription now newId = (Some ew, s)"
  using assms by (simp add: ensureActiveWallet_def)

lemma reserveTx_reject:
  assumes "getDoc w_id (wallets s1) k = Some wd" "w_status wd = W_active"
    "getDoc u_id (usages s1) (usageDocId uid requestId) = None"
    "quota_total wd < quota_used wd + amt"
  shows "reserveTx s1 k uid requestId act amt nowIso
           = (\<lparr>allowed = False, status = rejected,
               remaining = max 0 (quota_total wd - quota_used wd), walletId = Some (w_id wd)\<rparr>, s1)"
  using assms by (simp add: reserveTx_def rejectedResult_def)

lemma reserveTx_replay:
  assumes "getDoc w_id (wallets s1) k = Some wd" "w_status wd = W_active"
    "getDoc u_id (usages s1) (usageDocId uid requestId) = Some ud"
  shows "reserveTx s1 k uid requestId act amt nowIso
           = (\<lparr>allowed = (u_status ud \<noteq> rolled_back), status = Usage (u_status ud),
               remaining = max 0 (quota_total wd - quota_used wd), walletId = Some (w_id wd)\<rparr>, s1)"
  using assms by (simp add: reserveTx_def)

lemma reserveTx_new:
  assumes "getDoc w_id (wallets s1) k = Some wd" "w_status wd = W_active"
    "getDoc u_id (usages s1) (usageDocId uid requestId) = None"
    "quota_used wd + amt \<le> quota_total wd"
  shows "reserveTx s1 k uid requestId act amt nowIso
           = (\<lparr>allowed = True, status = Usage reserved,
               remaining = max 0 (quota_total wd - (quota_used wd + amt)), walletId = Some (w_id wd)\<rparr>,
              s1\<lparr>wallets := updateDoc w_id k
                     (\<lambda>w. w\<lparr>quota_used := quota_used wd + amt, w_updated_at := nowIso,
                             last_usage_at := Some nowIso\<rparr>) (wallets s1),
                 usages := usages s1 @
                     [\<lparr>u_id = usageDocId uid requestId, u_user_id = uid, wallet_id = w_id wd,
                       request_id = requestId, action = act, amount = amt, u_status = reserved,
                       u_created_at = nowIso, u_updated_at = nowIso\<rparr>]\<rparr>)"
  using assms by (simp add: reserveTx_def setDoc_def Let_def)

lemma reserveUsage_tx:
  assumes "requestId \<noteq> []" "getSubscription s uid = Some subscription" "is_active subscription"
    "ensureActiveWallet rt s uid subscription now newId = (Some wallet, s1)"
  shows "reserveUsage rt s uid requestId act amt now newId
           = reserveTx s1 (w_id wallet) uid requestId act amt (toISOString rt now)"
  using assms by (simp add: reserveUsage_def)

lemma usageDocId_inj: "usageDocId uid r1 = usageDocId uid r2 \<longleftrightarrow> r1 = r2"
  by (simp add: usageDocId_def)

lemma reserve_first:
  assumes r: "requestId \<noteq> []"
    and sub: "getSubscription s uid = Some subscription" "is_active subscription"
      "getPlanConfigById rt (plan_id subscription) = Some pc"
    and d: "distinct (map w_id (wallets s))"
    and w: "getActiveWallet s uid = Some wd" "walletCurrent rt subscription wd now"
    and u: "getDoc u_id (usages s) (usageDocId uid requestId) = None"
    and q: "quota_used wd + amt \<le> quota_total wd"
  shows "reserveUsage rt s uid requestId act amt now newId
           = (\<lparr>allowed = True, status = Usage reserved,
               remaining = max 0 (quota_total wd - (quota_used wd + amt)), walletId = Some (w_id wd)\<rparr>,
              s\<lparr>wallets := updateDoc w_id (w_id wd)
                     (\<lambda>w. w\<lparr>quota_used := quota_used wd + amt, w_updated_at := toISOString rt now,
                             last_usage_at := Some (toISOString rt now)\<rparr>) (wallets s),
                 usages := usages s @
                     [\<lparr>u_id = usageDocId uid requestId, u_user_id = uid, wallet_id = w_id wd,
                       request_id = requestId, action = act, amount = amt, u_status = reserved,
                       u_created_at = toISOString rt now, u_updated_at = toISOString rt now\<rparr>]\<rparr>)"
proof -
  have e: "ensureActiveWallet rt s uid subscription now newId = (Some wd, s)"
    using sub w by (simp add: ensureActiveWallet_current)
  have m: "wd \<in> set (wallets s)" "w_status wd = W_active"
    using getActiveWallet_mem [OF w(1)] by simp_all
  have g: "getDoc w_id (wallets s) (w_id wd) = Some wd"
    using d m(1) by (rule getDoc_distinct)
  show ?thesis
    unfolding reserveUsage_tx [OF r sub(1,2) e]
    by (rule reserveTx_new [OF g m(2) u q])
qed

lemma reserve_second_rejected:
  assumes r: "r1 \<noteq> []" "r2 \<noteq> []" "r1 \<noteq> r2"
    and sub: "getSubscription s uid = Some subscription" "is_active subscription"
      "getPlanConfigById rt (plan_id subscription) = Some pc"
    and d: "distinct (map w_id (wallets s))"
    and w: "getActiveWallet s uid = Some wd" "walletCurrent rt subscription wd now1"
      "walletCurrent rt subscription wd now2"
    and u: "getDoc u_id (usages s) (usageDocId uid r1) = None"
      "getDoc u_id (usages s) (usageDocId uid r2) = None"
    and q: "quota_used wd = quota_total wd - 1" "1 \<le> amt2"
  shows "\<exists>s'. reserveUsage rt s uid r1 act1 1 now1 nid1
               = (\<lparr>allowed = True, status = Usage reserved, remaining = 0,
                   walletId = Some (w_id wd)\<rparr>, s')
            \<and> reserveUsage rt s' uid r2 act2 amt2 now2 nid2
               = (\<lparr>allowed = False, status = rejected, remaining = 0,
                   walletId = Some (w_id wd)\<rparr>, s')"
proof -
  let ?iso = "toISOString rt now1"
  let ?f = "\<lambda>w. w\<lparr>quota_used := quota_used wd + 1, w_updated_at := ?iso, last_usage_at := Some ?iso\<rparr>"
  let ?g = "\<lambda>w. if w_id w = w_id wd then ?f w else w"
  let ?u = "\<lparr>u_id = usageDocId uid r1, u_user_id = uid, wallet_id = w_id wd,
             request_id = r1, action = act1, amount = 1, u_status = reserved,
             u_created_at = ?iso, u_updated_at = ?iso\<rparr>"
  let ?s' = "s\<lparr>wallets := updateDoc w_id (w_id wd) ?f (wallets s), usages := usages s @ [?u]\<rparr>"
  have q1: "quota_used wd + 1 \<le> quota_total wd" using q by simp
  have first: "reserveUsage rt s uid r1 act1 1 now1 nid1
      = (\<lparr>allowed = True, status = Usage reserved,
          remaining = max 0 (quota_total wd - (quota_used wd + 1)), walletId = Some (w_id wd)\<rparr>, ?s')"
    by (rule reserve_first [OF r(1) sub d w(1,2) u(1) q1])
  have rem: "max 0 (quota_total wd - (quota_used wd + 1)) = 0" using q by simp
  have sub': "getSubscription ?s' uid = Some subscription"
    using sub(1) by (simp add: getSubscription_def)
  have ws: "wallets ?s' = map ?g (wallets s)" by (simp add: updateDoc_def)
  have aw: "getActiveWallet ?s' uid = Some (?f wd)"
    using getActiveWallet_map [of ?s' ?g s uid, OF ws] w(1) by simp
  have cur: "walletCurrent rt subscription (?f wd) now2"
    using w(3) by (simp add: walletCurrent_def)
  have e: "ensureActiveWallet rt ?s' uid subscription now2 nid2 = (Some (?f wd), ?s')"
    using sub(2,3) aw cur by (rule ensureActiveWallet_current)
  have m: "wd \<in> set (wallets s)" "w_status wd = W_active"
    using getActiveWallet_mem [OF w(1)] by simp_all
  have g0: "getDoc w_id (wallets s) (w_id wd) = Some wd"
    using d m(1) by (rule getDoc_distinct)
  have g: "getDoc w_id (wallets ?s') (w_id (?f wd)) = Some (?f wd)"
    using g0 by (simp add: getDoc_updateDoc)
  have st: "w_status (?f wd) = W_active" using m(2) by simp
  have u2: "getDoc u_id (usages ?s') (usageDocId uid r2) = None"
    using u(2) r(3) by (simp add: getDoc_append usageDocId_inj)
  have over: "quota_total (?f wd) < quota_used (?f wd) + amt2" using q by simp
  have second: "reserveUsage rt ?s' uid r2 act2 amt2 now2 nid2
      = (\<lparr>allowed = False, status = rejected,
          remaining = max 0 (quota_total (?f wd) - quota_used (?f wd)),
          walletId = Some (w_id (?f wd))\<rparr>, ?s')"
    unfolding reserveUsage_tx [OF r(2) sub' sub(2) e]
    by (rule reserveTx_reject [OF g st u2 over])
  have rem2: "max 0 (quota_total (?f wd) - quota_used (?f wd)) = 0" using q by simp
  show ?thesis
    using first second rem rem2 by (intro exI [of _ ?s']) simp
qed

lemma reserve_rejected_current:
  assumes r: "requestId \<noteq> []"
    and sub: "getSubscription s uid = Some subscription" "is_active subscription"
      "getPlanConfigById rt (plan_id subscription) = Some pc"
    and d: "distinct (map w_id (wallets s))"
    and w: "getActiveWallet s uid = Some wd" "walletCurrent rt subscription wd now"
    and u: "getDoc u_id (usages s) (usageDocId uid requestId) = None"
    and q: "quota_total wd < quota_used wd + amt"
  shows "reserveUsage rt s uid requestId act amt now newId
           = (\<lparr>allowed = False, status = rejected,
               remaining = max 0 (quota_total wd - quota_used wd), walletId = Some (w_id wd)\<rparr>, s)"
proof -
  have e: "ensureActiveWallet rt s uid subscription now newId = (Some wd, s)"
    using sub(2,3) w by (rule ensureActiveWallet_current)
  have m: "wd \<in> set (wallets s)" "w_status wd = W_active"
    using getActiveWallet_mem [OF w(1)] by simp_all
  have g: "getDoc w_id (wallets s) (w_id wd) = Some wd"
    using d m(1) by (rule getDoc_distinct)
  have "reserveUsage rt s uid requestId act amt now newId
      = reserveTx s (w_id wd) uid requestId act amt (toISOString rt now)"
    using r sub(1,2) e by (rule reserveUsage_tx)
  also have "\<dots> = (\<lparr>allowed = False, status = rejected,
               remaining = max 0 (quota_total wd - quota_used wd), walletId = Some (w_id wd)\<rparr>, s)"
    using g m(2) u q by (rule reserveTx_reject)
  finally show ?thesis .
qed

lemma closeWallet_keeps:
  "w_id (closeWallet reason False nowIso w) = w_id w"
  "quota_used (closeWallet reason False nowIso w) = quota_used w"
  "quota_total (closeWallet reason False nowIso w) = quota_total w"
  by (simp_all add: closeWallet_def)

lemma closeWalletsForUser_other:
  "usages (closeWalletsForUser s uid reason z nowIso) = usages s"
  "subscriptions (closeWalletsForUser s uid reason z nowIso) = subscriptions s"
  "webhook_events (closeWalletsForUser s uid reason z nowIso) = webhook_events s"
  by (simp_all add: closeWalletsForUser_def)

text \<open>
  What \<open>ensureActiveWallet\<close> does to the wallet collection when the id for a new wallet
  is fresh: existing documents keep their id, \<open>quota_used\<close> and \<open>quota_total\<close>, and at most
  one document, with that id and \<open>quota_used = 0\<close>, is added.
\<close>

lemma ensureActiveWallet_shape:
  assumes e: "ensureActiveWallet rt s uid subscription now newId = (ow, s1)"
    and fresh: "newId \<notin> w_id ` set (wallets s)"
  shows "usages s1 = usages s \<and> subscriptions s1 = subscriptions s
         \<and> webhook_events s1 = webhook_events s
         \<and> (\<exists>g extra. wallets s1 = map g (wallets s) @ extra
               \<and> (\<forall>w. w_id (g w) = w_id w \<and> quota_used (g w) = quota_used w
                       \<and> quota_total (g w) = quota_total w)
               \<and> (extra = [] \<or> (\<exists>nw. extra = [nw] \<and> w_id nw = newId \<and> quota_used nw = 0)))"
proof (cases "s1 = s")
  case True
  have "wallets s = map id (wallets s) @ []" by simp
  then show ?thesis unfolding True by (intro conjI exI [of _ id] exI [of _ "[]"]) simp_all
next
  case False
  let ?iso = "toISOString rt now"
  let ?c = "closeWalletsForUser s uid ''period_reset'' False ?iso"
  have o: "openWalletForSubscription rt ?c subscription True ?iso newId = (ow, s1)"
    using e False
    by (auto simp: ensureActiveWallet_def Let_def split: if_splits option.splits)
  obtain pc where pc: "getPlanConfigById rt (plan_id subscription) = Some pc"
    using e False by (auto simp: ensureActiveWallet_def split: if_splits option.splits)
  let ?c2 = "closeWalletsForUser ?c (sub_user_id subscription) ''plan_change'' False ?iso"
  let ?g1 = "\<lambda>w. if w_user_id w = uid \<and> w_status w = W_active
                 then closeWallet ''period_reset'' False ?iso w else w"
  let ?g2 = "\<lambda>w. if w_user_id w = sub_user_id subscription \<and> w_status w = W_active
                 then closeWallet ''plan_change'' False ?iso w else w"
  let ?g = "?g2 \<circ> ?g1"
  let ?nw = "\<lparr>w_id = newId, w_user_id = sub_user_id subscription,
              subscription_id = Some (sub_id subscription), w_plan_id = plan_id subscription,
              scope = cycle pc, period_start = current_period_start subscription,
              period_end = current_period_end subscription, quota_total = quota pc,
              quota_used = 0, w_status = W_active, last_usage_at = None,
              w_created_at = ?iso, w_updated_at = ?iso, closed_reason = None\<rparr>"
  have w2: "wallets ?c2 = map ?g (wallets s)"
    by (simp add: closeWalletsForUser_def)
  have "map w_id (wallets ?c2) = map w_id (wallets s)"
    unfolding w2 by (simp add: closeWallet_keeps)
  then have "set (map w_id (wallets ?c2)) = set (map w_id (wallets s))" by simp
  then have ids: "w_id ` set (wallets ?c2) = w_id ` set (wallets s)" by simp
  have none: "getDoc w_id (wallets ?c2) newId = None"
    using fresh ids by (simp add: getDoc_None)
  have s1: "s1 = ?c2\<lparr>wallets := wallets ?c2 @ [?nw]\<rparr>"
    using o pc none by (simp add: openWalletForSubscription_def Let_def mergeWallet_def)
  have keep: "\<forall>w. w_id (?g w) = w_id w \<and> quota_used (?g w) = quota_used w
                \<and> quota_total (?g w) = quota_total w"
    by (simp add: closeWallet_keeps)
  have ws: "wallets s1 = map ?g (wallets s) @ [?nw]"
    unfolding s1 using w2 by simp
  have rest: "usages s1 = usages s" "subscriptions s1 = subscriptions s"
    "webhook_events s1 = webhook_events s"
    unfolding s1 by (simp_all add: closeWalletsForUser_other)
  show ?thesis
    using rest ws keep
    by (intro conjI exI [of _ ?g] exI [of _ "[?nw]"]) simp_all
qed

lemma reserveUsage_reserved_cases:
  assumes "reserveUsage rt s uid requestId act amt now newId = (res, s1)"
    and "status res = Usage reserved"
  obtains subscription wallet s0 where "requestId \<noteq> []" "getSubscription s uid = Some subscription"
    "is_active subscription"
    "ensureActiveWallet rt s uid subscription now newId = (Some wallet, s0)"
    "reserveTx s0 (w_id wallet) uid requestId act amt (toISOString rt now) = (res, s1)"
  using assms
  by (auto simp: reserveUsage_def rejectedResult_def split: if_splits option.splits prod.splits)

lemma reserveTx_reserved_new:
  assumes "reserveTx s0 k uid requestId act amt nowIso = (res, s1)"
    and "status res = Usage reserved"
    and "getDoc u_id (usages s0) (usageDocId uid requestId) = None"
  obtains wd where "getDoc w_id (wallets s0) k = Some wd" "w_status wd = W_active"
    "quota_used wd + amt \<le> quota_total wd"
  using assms
  by (auto simp: reserveTx_def rejectedResult_def Let_def split: if_splits option.splits)

lemma getDoc_shape:
  assumes "ws1 = map g ws @ extra" "\<And>w. key (g w) = key w" "getDoc key ws k = Some w"
  shows "getDoc key ws1 k = Some (g w)"
  using assms(3) unfolding assms(1)
  by (induction ws) (auto simp: getDoc_def assms(2))

lemma reserve_replay_same:
  assumes r: "requestId \<noteq> []"
    and sub: "getSubscription b uid = Some subscription" "is_active subscription"
      "getPlanConfigById rt (plan_id subscription) = Some pc"
    and d: "distinct (map w_id (wallets b))"
    and w: "getActiveWallet b uid = Some bw" "walletCurrent rt subscription bw now1"
      "walletCurrent rt subscription bw now2"
    and u: "getDoc u_id (usages b) (usageDocId uid requestId) = None"
    and q: "quota_used bw + amt \<le> quota_total bw"
  shows "\<exists>res b'. reserveUsage rt b uid requestId act amt now1 nid1 = (res, b')
            \<and> status res = Usage reserved \<and> walletId res = Some (w_id bw)
            \<and> map_option quota_used (getDoc w_id (wallets b') (w_id bw)) = Some (quota_used bw + amt)
            \<and> reserveUsage rt b' uid requestId act2 amt2 now2 nid2 = (res, b')"
proof -
  let ?iso = "toISOString rt now1"
  let ?f = "\<lambda>w. w\<lparr>quota_used := quota_used bw + amt, w_updated_at := ?iso, last_usage_at := Some ?iso\<rparr>"
  let ?g = "\<lambda>w. if w_id w = w_id bw then ?f w else w"
  let ?u = "\<lparr>u_id = usageDocId uid requestId, u_user_id = uid, wallet_id = w_id bw,
             request_id = requestId, action = act, amount = amt, u_status = reserved,
             u_created_at = ?iso, u_updated_at = ?iso\<rparr>"
  let ?b' = "b\<lparr>wallets := updateDoc w_id (w_id bw) ?f (wallets b), usages := usages b @ [?u]\<rparr>"
  let ?res = "\<lparr>allowed = True, status = Usage reserved,
          remaining = max 0 (quota_total bw - (quota_used bw + amt)), walletId = Some (w_id bw)\<rparr>"
  have first: "reserveUsage rt b uid requestId act amt now1 nid1 = (?res, ?b')"
    by (rule reserve_first [OF r sub d w(1,2) u q])
  have sub': "getSubscription ?b' uid = Some subscription"
    using sub(1) by (simp add: getSubscription_def)
  have ws: "wallets ?b' = map ?g (wallets b)" by (simp add: updateDoc_def)
  have aw: "getActiveWallet ?b' uid = Some (?f bw)"
    using getActiveWallet_map [of ?b' ?g b uid, OF ws] w(1) by simp
  have cur: "walletCurrent rt subscription (?f bw) now2"
    using w(3) by (simp add: walletCurrent_def)
  have e: "ensureActiveWallet rt ?b' uid subscription now2 nid2 = (Some (?f bw), ?b')"
    using sub(2,3) aw cur by (rule ensureActiveWallet_current)
  have m: "bw \<in> set (wallets b)" "w_status bw = W_active"
    using getActiveWallet_mem [OF w(1)] by simp_all
  have g0: "getDoc w_id (wallets b) (w_id bw) = Some bw"
    using d m(1) by (rule getDoc_distinct)
  have g: "getDoc w_id (wallets ?b') (w_id (?f bw)) = Some (?f bw)"
    using g0 by (simp add: getDoc_updateDoc)
  have st: "w_status (?f bw) = W_active" using m(2) by simp
  have u2: "getDoc u_id (usages ?b') (usageDocId uid requestId) = Some ?u"
    using u by (simp add: getDoc_append)
  have second: "reserveUsage rt ?b' uid requestId act2 amt2 now2 nid2
      = (\<lparr>allowed = (u_status ?u \<noteq> rolled_back), status = Usage (u_status ?u),
          remaining = max 0 (quota_total (?f bw) - quota_used (?f bw)),
          walletId = Some (w_id (?f bw))\<rparr>, ?b')"
    unfolding reserveUsage_tx [OF r sub' sub(2) e]
    by (rule reserveTx_replay [OF g st u2])
  have second': "reserveUsage rt ?b' uid requestId act2 amt2 now2 nid2 = (?res, ?b')"
    using second by simp
  have used: "map_option quota_used (getDoc w_id (wallets ?b') (w_id bw)) = Some (quota_used bw + amt)"
    using g by simp
  show ?thesis
    using first second' used by (intro exI [of _ ?res] exI [of _ ?b']) simp
qed

lemma closeWalletsForUser_ok:
  assumes "walletOk k s"
  shows "walletOk k (closeWalletsForUser s uid reason z nowIso)"
proof -
  let ?g = "\<lambda>w. if w_user_id w = uid \<and> w_status w = W_active
                then closeWallet reason z nowIso w else w"
  obtain w where w: "getDoc w_id (wallets s) k = Some w" "0 \<le> quota_used w"
    "quota_used w \<le> quota_total w"
    using assms by (auto simp: walletOk_def)
  have key: "\<And>d. w_id (?g d) = w_id d" by (simp add: closeWallet_def)
  have "getDoc w_id (wallets (closeWalletsForUser s uid reason z nowIso)) k = Some (?g w)"
    using w(1) by (simp add: closeWalletsForUser_def getDoc_map [of w_id ?g, OF key])
  moreover have "0 \<le> quota_used (?g w) \<and> quota_used (?g w) \<le> quota_total (?g w)"
    using w(2,3) by (simp add: closeWallet_def)
  ultimately show ?thesis unfolding walletOk_def by blast
qed

lemma mergeWallet_ok:
  assumes "\<exists>w. getDoc w_id ws k = Some w \<and> 0 \<le> quota_used w \<and> quota_used w \<le> quota_total w"
    and "0 \<le> quota_used nw" "quota_used nw \<le> quota_total nw"
  shows "\<exists>w. getDoc w_id (mergeWallet nw ws) k = Some w \<and> 0 \<le> quota_used w
           \<and> quota_used w \<le> quota_total w"
proof (cases "getDoc w_id ws (w_id nw) = None")
  case True
  then show ?thesis using assms(1) by (auto simp: mergeWallet_def getDoc_append)
next
  case False
  then obtain old where "getDoc w_id ws (w_id nw) = Some old" by auto
  then have m: "mergeWallet nw ws
      = updateDoc w_id (w_id nw) (\<lambda>old. nw\<lparr>closed_reason := closed_reason old\<rparr>) ws"
    by (simp add: mergeWallet_def)
  show ?thesis
    unfolding m using assms by (auto simp: getDoc_updateDoc)
qed

lemma openWalletForSubscription_ok:
  assumes "quotasOk rt" "walletOk k s"
    and "openWalletForSubscription rt s subscription ce nowIso newId = (ow, s1)"
  shows "walletOk k s1 \<and> usages s1 = usages s"
proof (cases "getPlanConfigById rt (plan_id subscription)")
  case None
  then show ?thesis using assms by (simp add: openWalletForSubscription_def)
next
  case (Some pc)
  let ?c = "if ce then closeWalletsForUser s (sub_user_id subscription) ''plan_change'' False nowIso
            else s"
  have q: "0 \<le> quota pc" using assms(1) Some by (auto simp: quotasOk_def)
  have c: "walletOk k ?c" using assms(2) by (simp add: closeWalletsForUser_ok)
  have u: "usages ?c = usages s" by (simp add: closeWalletsForUser_def)
  obtain nw where s1: "s1 = ?c\<lparr>wallets := mergeWallet nw (wallets ?c)\<rparr>"
    and nw: "quota_used nw = 0" "quota_total nw = quota pc"
    using assms(3) Some by (auto simp: openWalletForSubscription_def Let_def)
  have "\<exists>w. getDoc w_id (mergeWallet nw (wallets ?c)) k = Some w \<and> 0 \<le> quota_used w
           \<and> quota_used w \<le> quota_total w"
    using c nw q by (intro mergeWallet_ok) (simp_all add: walletOk_def)
  then show ?thesis unfolding s1 using u by (simp add: walletOk_def)
qed

lemma ensureActiveWallet_ok:
  assumes "quotasOk rt" "walletOk k s"
    and "ensureActiveWallet rt s uid subscription now newId = (ow, s1)"
  shows "walletOk k s1 \<and> usages s1 = usages s"
proof (cases "s1 = s")
  case True
  then show ?thesis using assms(2) by simp
next
  case False
  let ?iso = "toISOString rt now"
  let ?c = "closeWalletsForUser s uid ''period_reset'' False ?iso"
  have o: "openWalletForSubscription rt ?c subscription True ?iso newId = (ow, s1)"
    using assms(3) False
    by (auto simp: ensureActiveWallet_def Let_def split: if_splits option.splits)
  have "walletOk k ?c" using assms(2) by (rule closeWalletsForUser_ok)
  from openWalletForSubscription_ok [OF assms(1) this o]
  show ?thesis by (simp add: closeWalletsForUser_def)
qed

lemma set_setDoc: "set (setDoc key d ds) \<subseteq> insert d (set ds)"
  by (auto simp: setDoc_def updateDoc_def split: if_splits)

lemma reserveTx_ok:
  assumes "walletOk k s" "usagesOk s" "0 \<le> amt"
    and "reserveTx s kw uid requestId act amt nowIso = (res, s1)"
  shows "walletOk k s1 \<and> usagesOk s1"
proof (cases "s1 = s")
  case True
  then show ?thesis using assms by simp
next
  case False
  then obtain wd where wd: "getDoc w_id (wallets s) kw = Some wd"
    and q: "quota_used wd + amt \<le> quota_total wd"
    and s1: "s1 = s\<lparr>wallets := updateDoc w_id kw
                 (\<lambda>w. w\<lparr>quota_used := quota_used wd + amt, w_updated_at := nowIso,
                         last_usage_at := Some nowIso\<rparr>) (wallets s),
               usages := setDoc u_id
                 \<lparr>u_id = usageDocId uid requestId, u_user_id = uid, wallet_id = w_id wd,
                  request_id = requestId, action = act, amount = amt, u_status = reserved,
                  u_created_at = nowIso, u_updated_at = nowIso\<rparr> (usages s)\<rparr>"
    using assms(4)
    by (auto simp: reserveTx_def Let_def split: option.splits if_splits)
  obtain w where w: "getDoc w_id (wallets s) k = Some w" "0 \<le> quota_used w"
    "quota_used w \<le> quota_total w"
    using assms(1) by (auto simp: walletOk_def)
  have "walletOk k s1"
  proof (cases "k = kw")
    case True
    then have "wd = w" using wd w(1) by simp
    then show ?thesis
      using w q assms(3) True unfolding s1 walletOk_def by (simp add: getDoc_updateDoc)
  next
    case False
    then show ?thesis using w unfolding s1 walletOk_def by (simp add: getDoc_updateDoc)
  qed
  moreover have "usagesOk s1"
  proof -
    let ?u = "\<lparr>u_id = usageDocId uid requestId, u_user_id = uid, wallet_id = w_id wd,
                  request_id = requestId, action = act, amount = amt, u_status = reserved,
                  u_created_at = nowIso, u_updated_at = nowIso\<rparr>"
    have "set (setDoc u_id ?u (usages s)) \<subseteq> insert ?u (set (usages s))" by (rule set_setDoc)
    then show ?thesis using assms(2,3) unfolding s1 usagesOk_def by auto
  qed
  ultimately show ?thesis ..
qed

lemma reserveUsage_ok:
  assumes "quotasOk rt" "walletOk k s" "usagesOk s" "0 \<le> amt"
  shows "walletOk k (snd (reserveUsage rt s uid requestId act amt now newId))
         \<and> usagesOk (snd (reserveUsage rt s uid requestId act amt now newId))"
proof (cases "requestId \<noteq> [] \<and> (\<exists>sub. getSubscription s uid = Some sub \<and> is_active sub)")
  case False
  then have "snd (reserveUsage rt s uid requestId act amt now newId) = s"
    by (auto simp: reserveUsage_def split: option.splits)
  then show ?thesis using assms by simp
next
  case True
  then obtain subscription where r: "requestId \<noteq> []"
    and sub: "getSubscription s uid = Some subscription" "is_active subscription" by blast
  obtain ow s0 where e: "ensureActiveWallet rt s uid subscription now newId = (ow, s0)"
    by (cases "ensureActiveWallet rt s uid subscription now newId")
  have ok0: "walletOk k s0" "usagesOk s0"
    using ensureActiveWallet_ok [OF assms(1,2) e] assms(3) by (simp_all add: usagesOk_def)
  show ?thesis
  proof (cases ow)
    case None
    then have "snd (reserveUsage rt s uid requestId act amt now newId) = s0"
      using r sub e by (simp add: reserveUsage_def)
    then show ?thesis using ok0 by simp
  next
    case (Some wallet)
    obtain res s1 where tx: "reserveTx s0 (w_id wallet) uid requestId act amt (toISOString rt now)
        = (res, s1)"
      by (cases "reserveTx s0 (w_id wallet) uid requestId act amt (toISOString rt now)")
    have "snd (reserveUsage rt s uid requestId act amt now newId) = s1"
      using r sub e Some tx by (simp add: reserveUsage_def)
    then show ?thesis using reserveTx_ok [OF ok0 assms(4) tx] by simp
  qed
qed

lemma commitUsage_ok:
  assumes "walletOk k s" "usagesOk s"
  shows "walletOk k (snd (commitUsage rt s uid requestId now))
         \<and> usagesOk (snd (commitUsage rt s uid requestId now))"
  using assms
  by (auto simp: commitUsage_def walletOk_def usagesOk_def updateDoc_def split: option.splits)

lemma rollbackUsage_ok:
  assumes "walletOk k s" "usagesOk s"
  shows "walletOk k (snd (rollbackUsage rt s uid requestId now))
         \<and> usagesOk (snd (rollbackUsage rt s uid requestId now))"
proof (cases "snd (rollbackUsage rt s uid requestId now) = s")
  case True
  then show ?thesis using assms by simp
next
  case False
  then obtain usage where u: "getDoc u_id (usages s) (usageDocId uid requestId) = Some usage"
    and s1: "snd (rollbackUsage rt s uid requestId now)
       = s\<lparr>wallets := updateDoc w_id (wallet_id usage)
               (\<lambda>w. w\<lparr>quota_used := max 0 (quota_used w - amount usage),
                       w_updated_at := toISOString rt now\<rparr>) (wallets s),
            usages := updateDoc u_id (usageDocId uid requestId)
               (\<lambda>u. u\<lparr>u_status := rolled_back, u_updated_at := toISOString rt now\<rparr>) (usages s)\<rparr>"
    by (auto simp: rollbackUsage_def split: if_splits option.splits)
  have a: "0 \<le> amount usage"
    using assms(2) getDoc_mem [OF u] by (simp add: usagesOk_def)
  obtain w where w: "getDoc w_id (wallets s) k = Some w" "0 \<le> quota_used w"
    "quota_used w \<le> quota_total w"
    using assms(1) by (auto simp: walletOk_def)
  have "walletOk k (snd (rollbackUsage rt s uid requestId now))"
    unfolding s1 walletOk_def using w a by (auto simp: getDoc_updateDoc)
  moreover have "usagesOk (snd (rollbackUsage rt s uid requestId now))"
    unfolding s1 using assms(2) by (auto simp: usagesOk_def updateDoc_def)
  ultimately show ?thesis ..
qed

lemma applyOperation_ok:
  assumes "quotasOk rt" "walletOk k s" "usagesOk s" "0 \<le> reserveAmount op"
  shows "walletOk k (applyOperation rt s op) \<and> usagesOk (applyOperation rt s op)"
  using assms
  by (cases op) (simp_all add: reserveUsage_ok commitUsage_ok rollbackUsage_ok)

lemma runOperations_ok:
  assumes "quotasOk rt" "\<forall>op \<in> set ops. 0 \<le> reserveAmount op" "walletOk k s" "usagesOk s"
  shows "walletOk k (runOperations rt s ops) \<and> usagesOk (runOperations rt s ops)"
  using assms(2-)
proof (induction ops arbitrary: s)
  case Nil
  then show ?case by (simp add: runOperations_def)
next
  case (Cons op ops)
  have "walletOk k (applyOperation rt s op) \<and> usagesOk (applyOperation rt s op)"
    using Cons.prems assms(1) by (intro applyOperation_ok) simp_all
  then show ?case
    using Cons.IH [of "applyOperation rt s op"] Cons.prems(1) by (simp add: runOperations_def)
qed

lemma getPlanConfigById_impl_mem:
  "getPlanConfigById_impl plans pid = Some pc \<Longrightarrow> pc \<in> set plans"
  by (auto simp: getPlanConfigById_impl_def Let_def find_Some_iff split: if_splits)

lemma getPlanConfigById_unset_quota:
  assumes "getPlanConfigById_impl PLAN_CONFIG_unset pid = Some pc"
  shows "0 \<le> quota pc"
proof -
  have "pc \<in> set DEFAULT_PLAN_CONFIG"
    using getPlanConfigById_impl_mem [OF assms]
    by (simp add: PLAN_CONFIG_unset_def parsePlanConfig_def truthy_def)
  then show ?thesis by (auto simp: DEFAULT_PLAN_CONFIG_def)
qed

lemma openWalletForSubscription_events:
  "webhook_events (snd (openWalletForSubscription rt s subscription ce nowIso newId)) = webhook_events s"
  by (simp add: openWalletForSubscription_def closeWalletsForUser_def Let_def split: option.splits)

lemma processRevenueCatEvent_duplicate:
  assumes "getDoc wh_id (webhook_events s) (getWebhookEventId rt payload) = Some d"
  shows "processRevenueCatEvent rt s payload now newId = s"
  using assms by (simp add: processRevenueCatEvent_def)

lemma processRevenueCatEvent_recorded:
  "getDoc wh_id (webhook_events (processRevenueCatEvent rt s payload now newId))
     (getWebhookEventId rt payload) \<noteq> None"
proof (cases "getDoc wh_id (webhook_events s) (getWebhookEventId rt payload)")
  case (Some d)
  then show ?thesis by (simp add: processRevenueCatEvent_duplicate)
next
  case None
  then show ?thesis
    by (simp add: processRevenueCatEvent_def Let_def openWalletForSubscription_events
        closeWalletsForUser_def getDoc_updateDoc getDoc_setDoc)
qed

lemma closeWalletsForUser_ids:
  "w_id ` set (wallets (closeWalletsForUser s uid reason z nowIso)) = w_id ` set (wallets s)"
proof -
  have "map w_id (wallets (closeWalletsForUser s uid reason z nowIso)) = map w_id (wallets s)"
    by (simp add: closeWalletsForUser_def closeWallet_def)
  then have "set (map w_id (wallets (closeWalletsForUser s uid reason z nowIso)))
      = set (map w_id (wallets s))" by simp
  then show ?thesis by simp
qed

lemma mergeWallet_ids: "w_id ` set (mergeWallet nw ws) = insert (w_id nw) (w_id ` set ws)"
proof (cases "getDoc w_id ws (w_id nw)")
  case None
  then show ?thesis by (auto simp: mergeWallet_def)
next
  case (Some old)
  then have "w_id nw \<in> w_id ` set ws" using getDoc_None [of w_id ws "w_id nw"] by auto
  moreover have "map w_id (updateDoc w_id (w_id nw) (\<lambda>old. nw\<lparr>closed_reason := closed_reason old\<rparr>) ws)
      = map w_id ws"
    by (simp add: updateDoc_def)
  then have "set (map w_id (updateDoc w_id (w_id nw) (\<lambda>old. nw\<lparr>closed_reason := closed_reason old\<rparr>) ws))
      = set (map w_id ws)" by simp
  ultimately show ?thesis using Some by (auto simp: mergeWallet_def)
qed

lemma openWalletForSubscription_ids:
  "w_id ` set (wallets (snd (openWalletForSubscription rt s subscription ce nowIso newId)))
     = (if getPlanConfigById rt (plan_id subscription) = None then w_id ` set (wallets s)
        else insert newId (w_id ` set (wallets s)))"
  by (auto simp: openWalletForSubscription_def Let_def mergeWallet_ids closeWalletsForUser_ids
      split: option.splits)

lemma mult_div_le_int: "0 < (c::int) \<Longrightarrow> c * (d div c) \<le> d"
  using mult_div_mod_eq [of c d] pos_mod_sign [of c d] by linarith

lemma DayFromYear_grows:
  assumes "y \<le> y'"
  shows "DayFromYear y + 365 * (y' - y) \<le> DayFromYear y'
         \<and> DayFromYear y' \<le> DayFromYear y + 366 * (y' - y)"
  using assms
proof (induction y' rule: int_ge_induct)
  case base
  then show ?case by simp
next
  case (step i)
  then show ?case using DayFromYear_step [of i] by (simp add: algebra_simps)
qed

lemma DayFromYear_mono: "y \<le> y' \<Longrightarrow> DayFromYear y \<le> DayFromYear y'"
  using DayFromYear_grows [of y y'] by simp

lemma DayFromYear_1970: "DayFromYear 1970 = 0"
  by (simp add: DayFromYear_def)

lemma DayFromYear_estimate:
  "DayFromYear (1970 + (if 0 \<le> d then d div 366 else d div 365)) \<le> d"
proof (cases "0 \<le> d")
  case True
  then have "0 \<le> d div 366" by simp
  then have "DayFromYear (1970 + d div 366) \<le> 366 * (d div 366)"
    using DayFromYear_grows [of 1970 "1970 + d div 366"] by (simp add: DayFromYear_1970)
  moreover have "366 * (d div 366) \<le> d" by (simp add: mult_div_le_int)
  ultimately show ?thesis using True by simp
next
  case False
  then have "d div 365 \<le> 0" by simp
  then have "DayFromYear (1970 + d div 365) \<le> 365 * (d div 365)"
    using DayFromYear_grows [of "1970 + d div 365" 1970] by (simp add: DayFromYear_1970)
  moreover have "365 * (d div 365) \<le> d" by (simp add: mult_div_le_int)
  ultimately show ?thesis using False by simp
qed

lemma yearFrom_spec:
  "DayFromYear y \<le> d \<Longrightarrow>
     DayFromYear (yearFrom d y) \<le> d \<and> d < DayFromYear (yearFrom d y + 1)"
proof (induction d y rule: yearFrom.induct)
  case (1 d y)
  show ?case
  proof (cases "DayFromYear (y + 1) \<le> d")
    case True
    then have "yearFrom d y = yearFrom d (y + 1)" by (subst yearFrom.simps) simp
    then show ?thesis using "1.IH" [OF True True] by simp
  next
    case False
    then have "yearFrom d y = y" by (subst yearFrom.simps) simp
    then show ?thesis using False "1.prems" by simp
  qed
qed

lemma YearFromDay_spec:
  "DayFromYear (YearFromDay d) \<le> d \<and> d < DayFromYear (YearFromDay d + 1)"
  unfolding YearFromDay_def by (rule yearFrom_spec) (rule DayFromYear_estimate)

lemma YearFromDay_unique:
  assumes "DayFromYear y \<le> d" "d < DayFromYear (y + 1)"
  shows "YearFromDay d = y"
proof (rule ccontr)
  assume n: "YearFromDay d \<noteq> y"
  let ?y = "YearFromDay d"
  have s: "DayFromYear ?y \<le> d" "d < DayFromYear (?y + 1)" using YearFromDay_spec by simp_all
  show False
  proof (cases "?y < y")
    case True
    then have "DayFromYear (?y + 1) \<le> DayFromYear y" by (intro DayFromYear_mono) simp
    then show False using s(2) assms(1) by simp
  next
    case False
    then have "y + 1 \<le> ?y" using n by simp
    then have "DayFromYear (y + 1) \<le> DayFromYear ?y" by (rule DayFromYear_mono)
    then show False using s(1) assms(2) by simp
  qed
qed

lemma decode_day:
  assumes "0 \<le> m" "m \<le> 11" "l = 0 \<or> l = 1" "1 \<le> dt" "dt \<le> daysInMonth m l"
  shows "monthOfDay (monthStart m l + dt - 1) l = m \<and> dateOfDay (monthStart m l + dt - 1) l = dt"
proof -
  have "m = 0 \<or> m = 1 \<or> m = 2 \<or> m = 3 \<or> m = 4 \<or> m = 5 \<or> m = 6 \<or> m = 7
    \<or> m = 8 \<or> m = 9 \<or> m = 10 \<or> m = 11"
    using assms(1,2) by arith
  then show ?thesis
    using assms(3-5)
    by (elim disjE) (auto simp: monthOfDay_def dateOfDay_def monthStart_def daysInMonth_def)
qed

lemma encode_day:
  assumes "0 \<le> d" "d < 365 + l" "l = 0 \<or> l = 1"
  shows "0 \<le> monthOfDay d l \<and> monthOfDay d l \<le> 11 \<and> 1 \<le> dateOfDay d l
         \<and> dateOfDay d l \<le> daysInMonth (monthOfDay d l) l
         \<and> monthStart (monthOfDay d l) l + dateOfDay d l - 1 = d"
  using assms
  by (auto simp: monthOfDay_def dateOfDay_def monthStart_def daysInMonth_def)

lemma Day_MakeDate: "Day (MakeDate day 0) = day" "TimeWithinDay (MakeDate day 0) = 0"
  by (simp_all add: Day_def TimeWithinDay_def MakeDate_def msPerDay_def)

lemma DaysInYear_leap: "DaysInYear y = 365 + (if DaysInYear y = 366 then 1 else 0)"
  by (simp add: DaysInYear_def)

lemma monthStart_bounds:
  assumes "0 \<le> m" "m \<le> 11" "l = 0 \<or> l = 1"
  shows "0 \<le> monthStart m l \<and> monthStart m l + daysInMonth m l \<le> 365 + l"
proof -
  have "m = 0 \<or> m = 1 \<or> m = 2 \<or> m = 3 \<or> m = 4 \<or> m = 5 \<or> m = 6 \<or> m = 7
    \<or> m = 8 \<or> m = 9 \<or> m = 10 \<or> m = 11"
    using assms(1,2) by arith
  then show ?thesis
    using assms(3) by (elim disjE) (auto simp: monthStart_def daysInMonth_def)
qed

lemma MakeDay_month:
  assumes "0 \<le> m" "m \<le> 11"
  shows "MakeDay y m dt = DayFromYear y + monthStart m (if DaysInYear y = 366 then 1 else 0) + dt - 1"
proof -
  have "m div 12 = 0" "m mod 12 = m" using assms by simp_all
  then show ?thesis by (simp add: MakeDay_def)
qed

lemma MakeDay_normal: "MakeDay y m dt = MakeDay (y + m div 12) (m mod 12) dt"
  by (simp add: MakeDay_def)

lemma decode_time:
  assumes "0 \<le> m" "m \<le> 11" "1 \<le> dt"
    and "dt \<le> daysInMonth m (if DaysInYear y = 366 then 1 else 0)"
  shows "YearFromTime (MakeDate (MakeDay y m dt) 0) = y
         \<and> MonthFromTime (MakeDate (MakeDay y m dt) 0) = m
         \<and> DateFromTime (MakeDate (MakeDay y m dt) 0) = dt
         \<and> TimeWithinDay (MakeDate (MakeDay y m dt) 0) = 0"
proof -
  define l :: int where "l = (if DaysInYear y = 366 then 1 else 0)"
  define dy where "dy = monthStart m l + dt - 1"
  let ?e = "MakeDate (MakeDay y m dt) 0"
  have l: "l = 0 \<or> l = 1" by (simp add: l_def)
  have b: "0 \<le> monthStart m l" "monthStart m l + daysInMonth m l \<le> 365 + l"
    using monthStart_bounds [OF assms(1,2) l] by simp_all
  have dy: "0 \<le> dy" "dy < 365 + l" using b assms(3,4) by (simp_all add: dy_def l_def)
  have day: "Day ?e = DayFromYear y + dy"
    by (simp add: Day_MakeDate MakeDay_month [OF assms(1,2)] dy_def l_def)
  have next_year: "DayFromYear (y + 1) = DayFromYear y + 365 + l"
    using DaysInYear_leap [of y] by (simp add: DayFromYear_Suc l_def)
  have yr: "YearFromTime ?e = y"
    unfolding YearFromTime_def day
    by (rule YearFromDay_unique) (use dy next_year in simp_all)
  have leap: "InLeapYear ?e = l" by (simp add: InLeapYear_def yr l_def)
  have within: "DayWithinYear ?e = dy" by (simp add: DayWithinYear_def yr day)
  have dt: "dt \<le> daysInMonth m l" using assms(4) by (simp add: l_def)
  have "monthOfDay dy l = m \<and> dateOfDay dy l = dt"
    unfolding dy_def by (rule decode_day [OF assms(1,2) l assms(3) dt])
  then show ?thesis
    by (simp add: yr MonthFromTime_def DateFromTime_def leap within Day_MakeDate)
qed

lemma time_fields:
  "0 \<le> MonthFromTime t \<and> MonthFromTime t \<le> 11 \<and> 1 \<le> DateFromTime t
   \<and> DateFromTime t \<le> daysInMonth (MonthFromTime t) (InLeapYear t)"
proof -
  have s: "DayFromYear (YearFromTime t) \<le> Day t" "Day t < DayFromYear (YearFromTime t + 1)"
    using YearFromDay_spec [of "Day t"] by (simp_all add: YearFromTime_def)
  have l: "InLeapYear t = 0 \<or> InLeapYear t = 1" by (simp add: InLeapYear_def)
  have n: "DayFromYear (YearFromTime t + 1) = DayFromYear (YearFromTime t) + 365 + InLeapYear t"
    using DaysInYear_leap [of "YearFromTime t"] by (simp add: DayFromYear_Suc InLeapYear_def)
  have d: "0 \<le> DayWithinYear t" "DayWithinYear t < 365 + InLeapYear t"
    using s n by (simp_all add: DayWithinYear_def)
  show ?thesis
    using encode_day [OF d l] by (simp add: MonthFromTime_def DateFromTime_def)
qed

lemma YearFromTime_epoch: "0 \<le> t \<Longrightarrow> 1970 \<le> YearFromTime t"
proof (rule ccontr)
  assume t: "0 \<le> t" and n: "\<not> 1970 \<le> YearFromTime t"
  have "0 \<le> Day t" using t by (simp add: Day_def msPerDay_def)
  moreover have "Day t < DayFromYear (YearFromTime t + 1)"
    using YearFromDay_spec [of "Day t"] by (simp add: YearFromTime_def)
  moreover have "DayFromYear (YearFromTime t + 1) \<le> DayFromYear 1970"
    using n by (intro DayFromYear_mono) simp
  ultimately show False by (simp add: DayFromYear_1970)
qed

lemma no_two_leap_years: "DaysInYear y = 366 \<Longrightarrow> DaysInYear (y + 1) = 365"
proof -
  assume "DaysInYear y = 366"
  then have "y mod 4 = 0" by (simp add: DaysInYear_def split: if_splits)
  then have "(y + 1) mod 4 \<noteq> 0" by presburger
  then show ?thesis by (simp add: DaysInYear_def)
qed

lemma DateUTC_modern: "99 < y \<Longrightarrow> DateUTC y m d = MakeDate (MakeDay y m d) 0"
  by (simp add: DateUTC_def)

lemma syncPeriodEnd_monthly:
  assumes "0 \<le> now"
  shows "YearFromTime (syncPeriodEnd monthly now) = YearFromTime now + (MonthFromTime now + 1) div 12
         \<and> MonthFromTime (syncPeriodEnd monthly now) = (MonthFromTime now + 1) mod 12
         \<and> DateFromTime (syncPeriodEnd monthly now) = 1
         \<and> TimeWithinDay (syncPeriodEnd monthly now) = 0"
proof -
  let ?y = "YearFromTime now + (MonthFromTime now + 1) div 12"
  let ?m = "(MonthFromTime now + 1) mod 12"
  have y: "99 < YearFromTime now"
    using YearFromTime_epoch [OF assms] by simp
  have e: "syncPeriodEnd monthly now = MakeDate (MakeDay ?y ?m 1) 0"
    using MakeDay_normal [of "YearFromTime now" "MonthFromTime now + 1" 1]
    by (simp add: syncPeriodEnd_def DateUTC_modern [OF y])
  have m: "0 \<le> ?m" "?m \<le> 11" by simp_all
  have d: "(1::int) \<le> daysInMonth ?m (if DaysInYear ?y = 366 then 1 else 0)"
    by (simp add: daysInMonth_def)
  show ?thesis unfolding e by (rule decode_time [OF m _ d]) simp
qed

lemma syncPeriodEnd_yearly:
  assumes "0 \<le> now"
  shows "YearFromTime (syncPeriodEnd yearly now) = YearFromTime now + 1
         \<and> MonthFromTime (syncPeriodEnd yearly now)
             = (if MonthFromTime now = 1 \<and> DateFromTime now = 29 then 2 else MonthFromTime now)
         \<and> DateFromTime (syncPeriodEnd yearly now)
             = (if MonthFromTime now = 1 \<and> DateFromTime now = 29 then 1 else DateFromTime now)
         \<and> TimeWithinDay (syncPeriodEnd yearly now) = 0"
proof -
  let ?y = "YearFromTime now" and ?m = "MonthFromTime now" and ?d = "DateFromTime now"
  let ?l' = "if DaysInYear (?y + 1) = 366 then 1 else 0 :: int"
  have y: "99 < ?y + 1"
    using YearFromTime_epoch [OF assms] by simp
  have e: "syncPeriodEnd yearly now = MakeDate (MakeDay (?y + 1) ?m ?d) 0"
    by (simp add: syncPeriodEnd_def DateUTC_modern [OF y])
  have f: "0 \<le> ?m" "?m \<le> 11" "1 \<le> ?d" "?d \<le> daysInMonth ?m (InLeapYear now)"
    using time_fields [of now] by simp_all
  show ?thesis
  proof (cases "?m = 1 \<and> ?d = 29")
    case True
    then have "InLeapYear now = 1"
      using f(4) by (simp add: daysInMonth_def InLeapYear_def split: if_splits)
    then have "DaysInYear ?y = 366" by (simp add: InLeapYear_def split: if_splits)
    then have n: "DaysInYear (?y + 1) = 365" by (rule no_two_leap_years)
    have "MakeDay (?y + 1) ?m ?d = MakeDay (?y + 1) 2 1"
      using True n by (simp add: MakeDay_def monthStart_def)
    then have e': "syncPeriodEnd yearly now = MakeDate (MakeDay (?y + 1) 2 1) 0"
      using e by simp
    have "YearFromTime (MakeDate (MakeDay (?y + 1) 2 1) 0) = ?y + 1
         \<and> MonthFromTime (MakeDate (MakeDay (?y + 1) 2 1) 0) = 2
         \<and> DateFromTime (MakeDate (MakeDay (?y + 1) 2 1) 0) = 1
         \<and> TimeWithinDay (MakeDate (MakeDay (?y + 1) 2 1) 0) = 0"
      by (rule decode_time) (simp_all add: daysInMonth_def)
    then show ?thesis using True unfolding e' by simp
  next
    case False
    have "?d \<le> daysInMonth ?m ?l'"
    proof (cases "?m = 1")
      case True
      then have "?d \<noteq> 29" using False by simp
      moreover have "?d \<le> 29" using f(4) True by (simp add: daysInMonth_def InLeapYear_def split: if_splits)
      ultimately show ?thesis using True by (simp add: daysInMonth_def)
    next
      case False
      then show ?thesis using f(4) by (simp add: daysInMonth_def)
    qed
    from decode_time [OF f(1,2,3) this] show ?thesis using False unfolding e by simp
  qed
qed

lemma openWalletForSubscription_subscriptions:
  "subscriptions (snd (openWalletForSubscription rt s subscription ce nowIso newId)) = subscriptions s"
  by (simp add: openWalletForSubscription_def closeWalletsForUser_def Let_def split: option.splits)

lemma syncQuotaFromPlan_period:
  assumes "resolvePlanConfig rt candidate = Some rc" "planId rc \<noteq> []"
    and "getPlanConfigById rt (Some (planId rc)) = Some pc"
  shows "map_option (\<lambda>d. (current_period_start d, current_period_end d))
            (getDoc sub_id (subscriptions (syncQuotaFromPlan rt s uid candidate now newId)) uid)
         = Some (Some (toISOString rt now), Some (toISOString rt (syncPeriodEnd (cycle pc) now)))"
  using assms
  by (simp add: syncQuotaFromPlan_def resolvePlanId_def truthy_def Let_def
      openWalletForSubscription_subscriptions getDoc_setDoc)

subsection \<open>The wallet invariant\<close>

text \<open>
  C1.  A wallet that starts with \<open>0 \<le> quota_used \<le> quota_total\<close> still exists and still
  satisfies \<open>0 \<le> quota_used \<le> quota_total\<close> after every operation (after the first \<open>n\<close>
  operations, for every \<open>n\<close>) of any finite sequence of reserve, commit and rollback
  calls, by any users and for any requests.  The amounts are the data model's: those of
  the reserve calls and of the usage documents already stored are not negative (the spec
  has \<open>amount \<ge> 1\<close>), and no plan of the catalog has a negative quota.
\<close>

theorem quota_used_within_total:
  assumes "\<forall>pid pc. getPlanConfigById rt pid = Some pc \<longrightarrow> 0 \<le> quota pc"
    and "\<forall>u \<in> set (usages s). 0 \<le> amount u"
    and "\<forall>op \<in> set ops. 0 \<le> reserveAmount op"
    and "getDoc w_id (wallets s) k = Some w"
    and "0 \<le> quota_used w" and "quota_used w \<le> quota_total w"
  shows "\<exists>w'. getDoc w_id (wallets (runOperations rt s (take n ops))) k = Some w'
           \<and> 0 \<le> quota_used w' \<and> quota_used w' \<le> quota_total w'"
proof -
  have q: "quotasOk rt" using assms(1) by (simp add: quotasOk_def)
  have u: "usagesOk s" using assms(2) by (simp add: usagesOk_def)
  have w: "walletOk k s" using assms(4-6) by (auto simp: walletOk_def)
  have a: "\<forall>op \<in> set (take n ops). 0 \<le> reserveAmount op"
    using assms(3) by (meson in_set_takeD)
  from runOperations_ok [OF q a w u] show ?thesis by (simp add: walletOk_def)
qed

theorem quota_used_within_total_witness:
  "getDoc w_id (wallets sampleStore) ''w1'' = Some sampleWallet
   \<and> quota_used sampleWallet = 5 \<and> quota_total sampleWallet = 100
   \<and> map_option quota_used
        (getDoc w_id (wallets (runOperations sampleRuntime sampleStore (take 3 sampleOperations))) ''w1'')
       = Some 7
   \<and> map_option quota_used
        (getDoc w_id (wallets (runOperations sampleRuntime sampleStore (take 6 sampleOperations))) ''w1'')
       = Some 6
   \<and> (\<exists>w'. getDoc w_id (wallets (runOperations sampleRuntime sampleStore (take 6 sampleOperations))) ''w1''
              = Some w'
            \<and> 0 \<le> quota_used w' \<and> quota_used w' \<le> quota_total w')"
proof -
  have c: "\<forall>pid pc. getPlanConfigById sampleRuntime pid = Some pc \<longrightarrow> 0 \<le> quota pc"
    by (simp add: sampleRuntime_def getPlanConfigById_unset_quota)
  have u: "\<forall>u \<in> set (usages sampleStore). 0 \<le> amount u"
    by (simp add: sampleStore_def)
  have a: "\<forall>op \<in> set sampleOperations. 0 \<le> reserveAmount op"
    by (simp add: sampleOperations_def)
  have w: "getDoc w_id (wallets sampleStore) ''w1'' = Some sampleWallet"
    by (simp add: getDoc_def sampleStore_def sampleWallet_def)
  have b: "0 \<le> quota_used sampleWallet" "quota_used sampleWallet \<le> quota_total sampleWallet"
    "quota_used sampleWallet = 5" "quota_total sampleWallet = 100"
    by (simp_all add: sampleWallet_def)
  have v3: "map_option quota_used
        (getDoc w_id (wallets (runOperations sampleRuntime sampleStore (take 3 sampleOperations))) ''w1'')
       = Some 7"
    by code_simp
  have v6: "map_option quota_used
        (getDoc w_id (wallets (runOperations sampleRuntime sampleStore (take 6 sampleOperations))) ''w1'')
       = Some 6"
    by code_simp
  show ?thesis
    using w b v3 v6 quota_used_within_total [OF c u a w b(1,2), of 6] by simp
qed

subsection \<open>Replayed reserve\<close>

text \<open>
  C2, as the code has it.  First conjunct: a \<open>reserveUsage\<close> whose transaction finds the
  usage document of \<open>(userId, requestId)\<close> returns that document's current status, with
  \<open>allowed = (status \<noteq> rolled_back)\<close>, the remaining quota and the id of the wallet
  \<open>ensureActiveWallet\<close> returned, and the transaction writes nothing (the final store is
  the one \<open>ensureActiveWallet\<close> left).  Second conjunct: on the user's current active
  wallet, the first reserve of a request debits the wallet and returns \<open>reserved\<close> with
  that wallet's id; the same request reserved again while the wallet is still current
  (whatever action, amount and clock reading) returns the same result and leaves the
  store unchanged.  Third conjunct: a reserve transaction that writes at all has found no
  usage document of the pair, and returns \<open>reserved\<close>.
\<close>

theorem reserve_replay:
  "(requestId \<noteq> [] \<and> getSubscription s uid = Some subscription \<and> is_active subscription
      \<and> ensureActiveWallet rt s uid subscription now newId = (Some wallet, s1)
      \<and> getDoc w_id (wallets s1) (w_id wallet) = Some wd \<and> w_status wd = W_active
      \<and> getDoc u_id (usages s1) (usageDocId uid requestId) = Some ud
    \<longrightarrow> reserveUsage rt s uid requestId act amt now newId
          = (\<lparr>allowed = (u_status ud \<noteq> rolled_back), status = Usage (u_status ud),
              remaining = max 0 (quota_total wd - quota_used wd),
              walletId = Some (w_id wd)\<rparr>, s1))
   \<and> (requestId \<noteq> [] \<and> getSubscription b uid = Some subscription \<and> is_active subscription
      \<and> getPlanConfigById rt (plan_id subscription) = Some pc
      \<and> distinct (map w_id (wallets b)) \<and> getActiveWallet b uid = Some bw
      \<and> walletCurrent rt subscription bw now1 \<and> walletCurrent rt subscription bw now2
      \<and> getDoc u_id (usages b) (usageDocId uid requestId) = None
      \<and> quota_used bw + amt \<le> quota_total bw
    \<longrightarrow> (\<exists>res b'. reserveUsage rt b uid requestId act amt now1 nid1 = (res, b')
            \<and> status res = Usage reserved \<and> walletId res = Some (w_id bw)
            \<and> map_option quota_used (getDoc w_id (wallets b') (w_id bw))
                = Some (quota_used bw + amt)
            \<and> reserveUsage rt b' uid requestId act2 amt2 now2 nid2 = (res, b')))
   \<and> (reserveTx t k uid requestId act amt nowIso = (res', t') \<and> t' \<noteq> t
    \<longrightarrow> getDoc u_id (usages t) (usageDocId uid requestId) = None \<and> status res' = Usage reserved)"
proof (intro conjI impI)
  assume "reserveTx t k uid requestId act amt nowIso = (res', t') \<and> t' \<noteq> t"
  then show "getDoc u_id (usages t) (usageDocId uid requestId) = None"
    by (auto simp: reserveTx_def Let_def split: option.splits if_splits)
next
  assume "reserveTx t k uid requestId act amt nowIso = (res', t') \<and> t' \<noteq> t"
  then show "status res' = Usage reserved"
    by (auto simp: reserveTx_def Let_def split: option.splits if_splits)
next
  assume h: "requestId \<noteq> [] \<and> getSubscription s uid = Some subscription \<and> is_active subscription
      \<and> ensureActiveWallet rt s uid subscription now newId = (Some wallet, s1)
      \<and> getDoc w_id (wallets s1) (w_id wallet) = Some wd \<and> w_status wd = W_active
      \<and> getDoc u_id (usages s1) (usageDocId uid requestId) = Some ud"
  then have "reserveUsage rt s uid requestId act amt now newId
      = reserveTx s1 (w_id wallet) uid requestId act amt (toISOString rt now)"
    by (simp add: reserveUsage_tx)
  also have "\<dots> = (\<lparr>allowed = (u_status ud \<noteq> rolled_back), status = Usage (u_status ud),
              remaining = max 0 (quota_total wd - quota_used wd),
              walletId = Some (w_id wd)\<rparr>, s1)"
    using h by (intro reserveTx_replay) simp_all
  finally show "reserveUsage rt s uid requestId act amt now newId
          = (\<lparr>allowed = (u_status ud \<noteq> rolled_back), status = Usage (u_status ud),
              remaining = max 0 (quota_total wd - quota_used wd),
              walletId = Some (w_id wd)\<rparr>, s1)" .
next
  assume "requestId \<noteq> [] \<and> getSubscription b uid = Some subscription \<and> is_active subscription
      \<and> getPlanConfigById rt (plan_id subscription) = Some pc
      \<and> distinct (map w_id (wallets b)) \<and> getActiveWallet b uid = Some bw
      \<and> walletCurrent rt subscription bw now1 \<and> walletCurrent rt subscription bw now2
      \<and> getDoc u_id (usages b) (usageDocId uid requestId) = None
      \<and> quota_used bw + amt \<le> quota_total bw"
  then show "\<exists>res b'. reserveUsage rt b uid requestId act amt now1 nid1 = (res, b')
            \<and> status res = Usage reserved \<and> walletId res = Some (w_id bw)
            \<and> map_option quota_used (getDoc w_id (wallets b') (w_id bw))
                = Some (quota_used bw + amt)
            \<and> reserveUsage rt b' uid requestId act2 amt2 now2 nid2 = (res, b')"
    by (elim conjE) (rule reserve_replay_same; assumption)
qed

theorem reserve_replay_witness:
  "ensureActiveWallet sampleRuntime committedStore ''u1'' sampleSubscription 1739620800000 ''w2''
     = (Some renewedWallet, replayStore)
   \<and> getDoc u_id (usages replayStore) (usageDocId ''u1'' ''r1'') = Some committedUsage
   \<and> reserveUsage sampleRuntime committedStore ''u1'' ''r1'' ''ai_detect'' 1 1739620800000 ''w2''
       = (\<lparr>allowed = True, status = Usage committed, remaining = 100, walletId = Some ''w2''\<rparr>,
          replayStore)
   \<and> reserveUsage sampleRuntime sampleStore ''u1'' ''r1'' ''ai_detect'' 1 1736942400000 ''w2''
       = (\<lparr>allowed = True, status = Usage reserved, remaining = 94, walletId = Some ''w1''\<rparr>,
          reservedStore)
   \<and> reserveUsage sampleRuntime reservedStore ''u1'' ''r1'' ''ai_detect'' 1 1738324800000 ''w3''
       = (\<lparr>allowed = True, status = Usage reserved, remaining = 94, walletId = Some ''w1''\<rparr>,
          reservedStore)"
proof -
  have h1: "''r1'' \<noteq> [] \<and> getSubscription committedStore ''u1'' = Some sampleSubscription
      \<and> is_active sampleSubscription
      \<and> ensureActiveWallet sampleRuntime committedStore ''u1'' sampleSubscription 1739620800000 ''w2''
          = (Some renewedWallet, replayStore)
      \<and> getDoc w_id (wallets replayStore) (w_id renewedWallet) = Some renewedWallet
      \<and> w_status renewedWallet = W_active
      \<and> getDoc u_id (usages replayStore) (usageDocId ''u1'' ''r1'') = Some committedUsage"
    by code_simp
  have h2: "''r1'' \<noteq> [] \<and> getSubscription sampleStore ''u1'' = Some sampleSubscription
      \<and> is_active sampleSubscription
      \<and> getPlanConfigById sampleRuntime (plan_id sampleSubscription)
          = Some premiumMonthly
      \<and> distinct (map w_id (wallets sampleStore))
      \<and> getActiveWallet sampleStore ''u1'' = Some sampleWallet
      \<and> walletCurrent sampleRuntime sampleSubscription sampleWallet 1736942400000
      \<and> walletCurrent sampleRuntime sampleSubscription sampleWallet 1738324800000
      \<and> getDoc u_id (usages sampleStore) (usageDocId ''u1'' ''r1'') = None
      \<and> quota_used sampleWallet + 1 \<le> quota_total sampleWallet"
    by code_simp
  have c1: "reserveUsage sampleRuntime committedStore ''u1'' ''r1'' ''ai_detect'' 1 1739620800000 ''w2''
      = (\<lparr>allowed = (u_status committedUsage \<noteq> rolled_back),
          status = Usage (u_status committedUsage),
          remaining = max 0 (quota_total renewedWallet - quota_used renewedWallet),
          walletId = Some (w_id renewedWallet)\<rparr>, replayStore)"
    using reserve_replay [THEN conjunct1, THEN mp, OF h1] .
  obtain res b' where c2:
    "reserveUsage sampleRuntime sampleStore ''u1'' ''r1'' ''ai_detect'' 1 1736942400000 ''w2'' = (res, b')"
    "reserveUsage sampleRuntime b' ''u1'' ''r1'' ''ai_detect'' 1 1738324800000 ''w3'' = (res, b')"
    using reserve_replay [THEN conjunct2, THEN conjunct1, THEN mp, OF h2,
        of "''ai_detect''" "''w2''" "''ai_detect''" 1 "''w3''"] by blast
  have first: "reserveUsage sampleRuntime sampleStore ''u1'' ''r1'' ''ai_detect'' 1 1736942400000 ''w2''
      = (\<lparr>allowed = True, status = Usage reserved, remaining = 94, walletId = Some ''w1''\<rparr>,
         reservedStore)"
    unfolding reservedStore_def by code_simp
  have eq: "res = \<lparr>allowed = True, status = Usage reserved, remaining = 94, walletId = Some ''w1''\<rparr>"
    "b' = reservedStore"
    using c2(1) first by simp_all
  have v: "u_status committedUsage = committed" "w_id renewedWallet = ''w2''"
    "max 0 (quota_total renewedWallet - quota_used renewedWallet) = 100"
    by (simp_all add: committedUsage_def renewedWallet_def)
  show ?thesis using h1 c1 c2(2) first v unfolding eq by simp
qed

text \<open>
  The claim as stated fails: \<open>r1\<close> is reserved on the wallet \<open>w1\<close> (status \<open>reserved\<close>)
  and committed.  Reserved again at once, the call finds the usage document and returns
  status \<open>committed\<close>; reserved again after the period end of \<open>w1\<close>, it returns status
  \<open>committed\<close> and the wallet id \<open>w2\<close>, and the call has closed \<open>w1\<close>.
\<close>

theorem reserve_replay_counterexample:
  "fst (reserveUsage sampleRuntime sampleStore ''u1'' ''r1'' ''ai_detect'' 1 1736942400000 ''w2'')
     = \<lparr>allowed = True, status = Usage reserved, remaining = 94, walletId = Some ''w1''\<rparr>
   \<and> map_option u_status (getDoc u_id (usages committedStore) (usageDocId ''u1'' ''r1''))
       = Some committed
   \<and> reserveUsage sampleRuntime committedStore ''u1'' ''r1'' ''ai_detect'' 1 1736942400000 ''w2''
       = (\<lparr>allowed = True, status = Usage committed, remaining = 94, walletId = Some ''w1''\<rparr>,
          committedStore)
   \<and> reserveUsage sampleRuntime committedStore ''u1'' ''r1'' ''ai_detect'' 1 1739620800000 ''w2''
       = (\<lparr>allowed = True, status = Usage committed, remaining = 100, walletId = Some ''w2''\<rparr>,
          replayStore)
   \<and> map_option w_status (getDoc w_id (wallets committedStore) ''w1'') = Some W_active
   \<and> map_option w_status (getDoc w_id (wallets replayStore) ''w1'') = Some W_closed"
  unfolding replayStore_def by code_simp

subsection \<open>Reserve followed by rollback\<close>

text \<open>
  C3, as the code has it.  A \<open>reserveUsage\<close> that makes the reservation for
  \<open>(userId, requestId)\<close> (it returns status \<open>reserved\<close>, and no usage document of that pair
  existed before it), followed by \<open>rollbackUsage\<close> of the same pair, returns
  \<open>rolled_back\<close>, leaves the usage document in status \<open>rolled_back\<close>, and leaves every
  wallet of the store before the reserve with a non-negative \<open>quota_used\<close> at exactly that
  \<open>quota_used\<close>.  The id the store assigns to a wallet opened during the reserve (a period
  rollover) is a new one.
\<close>

theorem reserve_then_rollback_restores:
  assumes res: "reserveUsage rt s uid requestId act amt now newId = (res, s1)"
    and ok: "status res = Usage reserved"
    and new: "getDoc u_id (usages s) (usageDocId uid requestId) = None"
    and fresh: "newId \<notin> w_id ` set (wallets s)"
  shows "\<exists>s2. rollbackUsage rt s1 uid requestId now' = (Some rolled_back, s2)
           \<and> map_option u_status (getDoc u_id (usages s2) (usageDocId uid requestId))
               = Some rolled_back
           \<and> (\<forall>k w. getDoc w_id (wallets s) k = Some w \<and> 0 \<le> quota_used w
                 \<longrightarrow> map_option quota_used (getDoc w_id (wallets s2) k) = Some (quota_used w))"
proof -
  from res ok obtain subscription wallet s0 where r: "requestId \<noteq> []"
    and e: "ensureActiveWallet rt s uid subscription now newId = (Some wallet, s0)"
    and tx: "reserveTx s0 (w_id wallet) uid requestId act amt (toISOString rt now) = (res, s1)"
    by (rule reserveUsage_reserved_cases)
  from ensureActiveWallet_shape [OF e fresh] obtain g extra
    where us: "usages s0 = usages s"
      and ws: "wallets s0 = map g (wallets s) @ extra"
      and keep: "\<And>w. w_id (g w) = w_id w" "\<And>w. quota_used (g w) = quota_used w"
    by auto
  have new0: "getDoc u_id (usages s0) (usageDocId uid requestId) = None"
    using new us by simp
  from tx ok new0 obtain wd where wd: "getDoc w_id (wallets s0) (w_id wallet) = Some wd"
    and act: "w_status wd = W_active" and q: "quota_used wd + amt \<le> quota_total wd"
    by (rule reserveTx_reserved_new)
  define iso where "iso = toISOString rt now"
  define iso' where "iso' = toISOString rt now'"
  define debit where "debit = (\<lambda>w::QuotaWalletDoc. w\<lparr>quota_used := quota_used wd + amt,
      w_updated_at := iso, last_usage_at := Some iso\<rparr>)"
  define u where "u = \<lparr>u_id = usageDocId uid requestId, u_user_id = uid, wallet_id = w_id wd,
      request_id = requestId, action = act, amount = amt, u_status = reserved,
      u_created_at = iso, u_updated_at = iso\<rparr>"
  define refund where "refund = (\<lambda>w::QuotaWalletDoc. w\<lparr>quota_used := max 0 (quota_used w - amt),
      w_updated_at := iso'\<rparr>)"
  define undo where "undo = (\<lambda>d::QuotaUsageDoc. d\<lparr>u_status := rolled_back, u_updated_at := iso'\<rparr>)"
  have kw: "w_id wd = w_id wallet" using wd by (rule getDoc_key)
  have kd: "\<And>d. w_id (debit d) = w_id d" by (simp add: debit_def)
  have kr: "\<And>d. w_id (refund d) = w_id d" by (simp add: refund_def)
  have s1: "s1 = s0\<lparr>wallets := updateDoc w_id (w_id wd) debit (wallets s0), usages := usages s0 @ [u]\<rparr>"
    using tx reserveTx_new [OF wd act new0 q, of act "toISOString rt now"]
    by (simp add: debit_def u_def iso_def kw)
  have gu: "getDoc u_id (usages s1) (usageDocId uid requestId) = Some u"
    using new0 by (simp add: s1 getDoc_append u_def)
  define s2 where "s2 = s1\<lparr>wallets := updateDoc w_id (w_id wd) refund (wallets s1),
      usages := updateDoc u_id (usageDocId uid requestId) undo (usages s1)\<rparr>"
  have rb: "rollbackUsage rt s1 uid requestId now' = (Some rolled_back, s2)"
    using r gu by (simp add: rollbackUsage_def s2_def refund_def undo_def iso'_def u_def)
  have st: "map_option u_status (getDoc u_id (usages s2) (usageDocId uid requestId)) = Some rolled_back"
    using gu by (simp add: s2_def getDoc_updateDoc undo_def)
  have wl: "map_option quota_used (getDoc w_id (wallets s2) k) = Some (quota_used w)"
    if k: "getDoc w_id (wallets s) k = Some w" and nn: "0 \<le> quota_used w" for k w
  proof -
    have g0: "getDoc w_id (wallets s0) k = Some (g w)"
      using ws keep(1) k by (rule getDoc_shape)
    show ?thesis
    proof (cases "k = w_id wd")
      case True
      then have eq: "wd = g w" using wd g0 kw by simp
      have "getDoc w_id (wallets s1) (w_id wd) = Some (debit wd)"
        using wd by (simp add: s1 getDoc_updateDoc kd kw)
      then have "getDoc w_id (wallets s2) (w_id wd) = Some (refund (debit wd))"
        by (simp add: s2_def getDoc_updateDoc kr)
      then show ?thesis using True nn by (simp add: refund_def debit_def eq keep(2))
    next
      case False
      have "getDoc w_id (wallets s1) k = Some (g w)"
        using g0 False by (simp add: s1 getDoc_updateDoc kd)
      then have "getDoc w_id (wallets s2) k = Some (g w)"
        using False by (simp add: s2_def getDoc_updateDoc kr)
      then show ?thesis by (simp add: keep(2))
    qed
  qed
  show ?thesis using rb st wl by blast
qed

theorem reserve_then_rollback_restores_witness:
  "fst (reserveUsage sampleRuntime sampleStore ''u1'' ''r1'' ''ai_detect'' 1 1736942400000 ''w2'')
     = \<lparr>allowed = True, status = Usage reserved, remaining = 94, walletId = Some ''w1''\<rparr>
   \<and> getDoc u_id (usages sampleStore) (usageDocId ''u1'' ''r1'') = None
   \<and> ''w2'' \<notin> w_id ` set (wallets sampleStore)
   \<and> map_option quota_used (getDoc w_id (wallets sampleStore) ''w1'') = Some 5
   \<and> map_option quota_used (getDoc w_id (wallets reservedStore) ''w1'') = Some 6
   \<and> rollbackUsage sampleRuntime reservedStore ''u1'' ''r1'' 1736942400000
       = (Some rolled_back, rolledBackStore)
   \<and> map_option u_status (getDoc u_id (usages rolledBackStore) (usageDocId ''u1'' ''r1''))
       = Some rolled_back
   \<and> map_option quota_used (getDoc w_id (wallets rolledBackStore) ''w1'') = Some 5"
proof -
  let ?res = "\<lparr>allowed = True, status = Usage reserved, remaining = 94, walletId = Some ''w1''\<rparr>"
  have a: "reserveUsage sampleRuntime sampleStore ''u1'' ''r1'' ''ai_detect'' 1 1736942400000 ''w2''
      = (?res, reservedStore)"
    unfolding reservedStore_def by code_simp
  have b: "status ?res = Usage reserved" by simp
  have c: "getDoc u_id (usages sampleStore) (usageDocId ''u1'' ''r1'') = None" by code_simp
  have d: "''w2'' \<notin> w_id ` set (wallets sampleStore)"
    by (simp add: sampleStore_def sampleWallet_def)
  have w: "getDoc w_id (wallets sampleStore) ''w1'' = Some sampleWallet \<and> 0 \<le> quota_used sampleWallet"
    by (simp add: getDoc_def sampleStore_def sampleWallet_def)
  have e: "map_option quota_used (getDoc w_id (wallets reservedStore) ''w1'') = Some 6" by code_simp
  obtain s2 where r: "rollbackUsage sampleRuntime reservedStore ''u1'' ''r1'' 1736942400000
        = (Some rolled_back, s2)"
    and u: "map_option u_status (getDoc u_id (usages s2) (usageDocId ''u1'' ''r1'')) = Some rolled_back"
    and q: "map_option quota_used (getDoc w_id (wallets s2) ''w1'') = Some (quota_used sampleWallet)"
    using reserve_then_rollback_restores [OF a b c d, of 1736942400000] w by blast
  have s2: "s2 = rolledBackStore" using r by (simp add: rolledBackStore_def)
  have five: "quota_used sampleWallet = 5" by (simp add: sampleWallet_def)
  show ?thesis using a c d w e r u q five unfolding s2 by simp
qed

text \<open>
  The claim as stated fails: a \<open>reserveUsage\<close> that finds the reservation \<open>r1\<close> already
  made also returns status \<open>reserved\<close>, and debits nothing.  With \<open>quota_used = 6\<close> before
  that call, the \<open>rollbackUsage\<close> that follows it refunds the first reservation and leaves
  \<open>quota_used = 5\<close>.
\<close>

theorem reserve_then_rollback_restores_counterexample:
  "map_option w_id (getActiveWallet reservedStore ''u1'') = Some ''w1''
   \<and> map_option quota_used (getDoc w_id (wallets reservedStore) ''w1'') = Some 6
   \<and> reserveUsage sampleRuntime reservedStore ''u1'' ''r1'' ''ai_detect'' 1 1736942400000 ''w3''
       = (\<lparr>allowed = True, status = Usage reserved, remaining = 94, walletId = Some ''w1''\<rparr>,
          reservedStore)
   \<and> rollbackUsage sampleRuntime reservedStore ''u1'' ''r1'' 1736942400000
       = (Some rolled_back, rolledBackStore)
   \<and> map_option u_status (getDoc u_id (usages rolledBackStore) (usageDocId ''u1'' ''r1''))
       = Some rolled_back
   \<and> map_option quota_used (getDoc w_id (wallets rolledBackStore) ''w1'') = Some 5"
  unfolding rolledBackStore_def by code_simp

subsection \<open>Rollback after commit\<close>

text \<open>
  C4.  When the usage document of \<open>(userId, requestId)\<close> is in status \<open>committed\<close>,
  \<open>rollbackUsage\<close> returns \<open>committed\<close> and writes nothing: the usage document keeps its
  status and the wallet its \<open>quota_used\<close> (the whole store is unchanged).  The request id
  is non-empty, as for every reservation the service creates.
\<close>

theorem rollback_after_commit_noop:
  assumes "requestId \<noteq> []"
    and "getDoc u_id (usages s) (usageDocId uid requestId) = Some usage"
    and "u_status usage = committed"
  shows "rollbackUsage rt s uid requestId now = (Some committed, s)"
  using assms by (simp add: rollbackUsage_def)

theorem rollback_after_commit_noop_witness:
  "''r1'' \<noteq> []
   \<and> map_option u_status (getDoc u_id (usages committedStore) (usageDocId ''u1'' ''r1''))
       = Some committed
   \<and> map_option quota_used (getDoc w_id (wallets committedStore) ''w1'') = Some 6
   \<and> rollbackUsage sampleRuntime committedStore ''u1'' ''r1'' 1739620800000
       = (Some committed, committedStore)"
proof -
  have a: "''r1'' \<noteq> []" by simp
  have b: "map_option u_status (getDoc u_id (usages committedStore) (usageDocId ''u1'' ''r1''))
             = Some committed"
    by code_simp
  then obtain usage where u: "getDoc u_id (usages committedStore) (usageDocId ''u1'' ''r1'') = Some usage"
    and c: "u_status usage = committed" by auto
  have d: "map_option quota_used (getDoc w_id (wallets committedStore) ''w1'') = Some 6"
    by code_simp
  show ?thesis using a b d rollback_after_commit_noop [OF a u c] by simp
qed

subsection \<open>Reserve at and beyond the quota\<close>

text \<open>
  C5, as the code has it.  First conjunct: when the transaction of \<open>reserveUsage\<close> (entered on
  the wallet that \<open>ensureActiveWallet\<close> returned, in the store \<open>s1\<close> it left) finds the
  wallet active, no usage document for the request id, and
  \<open>quota_used + amount > quota_total\<close>, the call returns \<open>allowed = false\<close>,
  \<open>status = rejected\<close>, \<open>remaining = max(0, quota_total - quota_used)\<close>, and the transaction
  writes nothing: the final store is \<open>s1\<close>, so the only writes of the call are those of
  \<open>ensureActiveWallet\<close>.  Second conjunct, the boundary: on the user's current active
  wallet with \<open>quota_used = quota_total - 1\<close>, a reserve of amount 1 succeeds with remaining
  0, and a following reserve under a different request id (any amount \<open>\<ge> 1\<close>, wallet still
  current) is rejected with remaining 0 and leaves the store as the first reserve left it.
  Third conjunct: when the user's active wallet is current (\<open>ensureActiveWallet\<close> has
  nothing to roll over), the rejected call leaves the whole store unchanged.
\<close>

theorem reserve_quota_exhausted:
  "(requestId \<noteq> [] \<and> getSubscription s uid = Some subscription \<and> is_active subscription
      \<and> ensureActiveWallet rt s uid subscription now newId = (Some wallet, s1)
      \<and> getDoc w_id (wallets s1) (w_id wallet) = Some wd \<and> w_status wd = W_active
      \<and> getDoc u_id (usages s1) (usageDocId uid requestId) = None
      \<and> quota_total wd < quota_used wd + amt
    \<longrightarrow> reserveUsage rt s uid requestId act amt now newId
          = (\<lparr>allowed = False, status = rejected,
              remaining = max 0 (quota_total wd - quota_used wd),
              walletId = Some (w_id wd)\<rparr>, s1))
   \<and> (r1 \<noteq> [] \<and> r2 \<noteq> [] \<and> r1 \<noteq> r2
      \<and> getSubscription b uid = Some subscription \<and> is_active subscription
      \<and> getPlanConfigById rt (plan_id subscription) = Some pc
      \<and> distinct (map w_id (wallets b)) \<and> getActiveWallet b uid = Some bw
      \<and> walletCurrent rt subscription bw now1 \<and> walletCurrent rt subscription bw now2
      \<and> getDoc u_id (usages b) (usageDocId uid r1) = None
      \<and> getDoc u_id (usages b) (usageDocId uid r2) = None
      \<and> quota_used bw = quota_total bw - 1 \<and> 1 \<le> amt2
    \<longrightarrow> (\<exists>b'. reserveUsage rt b uid r1 act1 1 now1 nid1
                 = (\<lparr>allowed = True, status = Usage reserved, remaining = 0,
                     walletId = Some (w_id bw)\<rparr>, b')
              \<and> reserveUsage rt b' uid r2 act2 amt2 now2 nid2
                 = (\<lparr>allowed = False, status = rejected, remaining = 0,
                     walletId = Some (w_id bw)\<rparr>, b')))
   \<and> (r3 \<noteq> [] \<and> getSubscription c uid = Some subscription \<and> is_active subscription
      \<and> getPlanConfigById rt (plan_id subscription) = Some pc
      \<and> distinct (map w_id (wallets c)) \<and> getActiveWallet c uid = Some cw
      \<and> walletCurrent rt subscription cw now3
      \<and> getDoc u_id (usages c) (usageDocId uid r3) = None
      \<and> quota_total cw < quota_used cw + amt3
    \<longrightarrow> reserveUsage rt c uid r3 act3 amt3 now3 nid3
          = (\<lparr>allowed = False, status = rejected,
              remaining = max 0 (quota_total cw - quota_used cw),
              walletId = Some (w_id cw)\<rparr>, c))"
proof (intro conjI impI)
  assume h: "requestId \<noteq> [] \<and> getSubscription s uid = Some subscription \<and> is_active subscription
      \<and> ensureActiveWallet rt s uid subscription now newId = (Some wallet, s1)
      \<and> getDoc w_id (wallets s1) (w_id wallet) = Some wd \<and> w_status wd = W_active
      \<and> getDoc u_id (usages s1) (usageDocId uid requestId) = None
      \<and> quota_total wd < quota_used wd + amt"
  then have "reserveUsage rt s uid requestId act amt now newId
      = reserveTx s1 (w_id wallet) uid requestId act amt (toISOString rt now)"
    by (simp add: reserveUsage_tx)
  also have "\<dots> = (\<lparr>allowed = False, status = rejected,
              remaining = max 0 (quota_total wd - quota_used wd),
              walletId = Some (w_id wd)\<rparr>, s1)"
    using h by (intro reserveTx_reject) simp_all
  finally show "reserveUsage rt s uid requestId act amt now newId
          = (\<lparr>allowed = False, status = rejected,
              remaining = max 0 (quota_total wd - quota_used wd),
              walletId = Some (w_id wd)\<rparr>, s1)" .
next
  assume "r1 \<noteq> [] \<and> r2 \<noteq> [] \<and> r1 \<noteq> r2
      \<and> getSubscription b uid = Some subscription \<and> is_active subscription
      \<and> getPlanConfigById rt (plan_id subscription) = Some pc
      \<and> distinct (map w_id (wallets b)) \<and> getActiveWallet b uid = Some bw
      \<and> walletCurrent rt subscription bw now1 \<and> walletCurrent rt subscription bw now2
      \<and> getDoc u_id (usages b) (usageDocId uid r1) = None
      \<and> getDoc u_id (usages b) (usageDocId uid r2) = None
      \<and> quota_used bw = quota_total bw - 1 \<and> 1 \<le> amt2"
  then show "\<exists>b'. reserveUsage rt b uid r1 act1 1 now1 nid1
                 = (\<lparr>allowed = True, status = Usage reserved, remaining = 0,
                     walletId = Some (w_id bw)\<rparr>, b')
              \<and> reserveUsage rt b' uid r2 act2 amt2 now2 nid2
                 = (\<lparr>allowed = False, status = rejected, remaining = 0,
                     walletId = Some (w_id bw)\<rparr>, b')"
    by (elim conjE) (rule reserve_second_rejected; assumption)
next
  assume "r3 \<noteq> [] \<and> getSubscription c uid = Some subscription \<and> is_active subscription
      \<and> getPlanConfigById rt (plan_id subscription) = Some pc
      \<and> distinct (map w_id (wallets c)) \<and> getActiveWallet c uid = Some cw
      \<and> walletCurrent rt subscription cw now3
      \<and> getDoc u_id (usages c) (usageDocId uid r3) = None
      \<and> quota_total cw < quota_used cw + amt3"
  then show "reserveUsage rt c uid r3 act3 amt3 now3 nid3
          = (\<lparr>allowed = False, status = rejected,
              remaining = max 0 (quota_total cw - quota_used cw),
              walletId = Some (w_id cw)\<rparr>, c)"
    by (elim conjE) (rule reserve_rejected_current; assumption)
qed

theorem reserve_quota_exhausted_witness:
  "reserveUsage sampleRuntime boundaryStore ''u1'' ''r1'' ''ai_detect'' 1 1736942400000 ''w2''
     = (\<lparr>allowed = True, status = Usage reserved, remaining = 0, walletId = Some ''w1''\<rparr>, fullStore)
   \<and> getDoc w_id (wallets fullStore) ''w1'' = Some fullWallet
   \<and> quota_total fullWallet < quota_used fullWallet + 1
   \<and> reserveUsage sampleRuntime fullStore ''u1'' ''r2'' ''ai_detect'' 1 1736942400000 ''w3''
     = (\<lparr>allowed = False, status = rejected, remaining = 0, walletId = Some ''w1''\<rparr>, fullStore)
   \<and> getActiveWallet sampleStore ''u1'' = Some sampleWallet
   \<and> quota_total sampleWallet < quota_used sampleWallet + 200
   \<and> reserveUsage sampleRuntime sampleStore ''u1'' ''r9'' ''ai_detect'' 200 1736942400000 ''w2''
     = (\<lparr>allowed = False, status = rejected, remaining = 95, walletId = Some ''w1''\<rparr>, sampleStore)"
proof -
  have h1: "''r2'' \<noteq> [] \<and> getSubscription fullStore ''u1'' = Some sampleSubscription
      \<and> is_active sampleSubscription
      \<and> ensureActiveWallet sampleRuntime fullStore ''u1'' sampleSubscription 1736942400000 ''w3''
          = (Some fullWallet, fullStore)
      \<and> getDoc w_id (wallets fullStore) (w_id fullWallet) = Some fullWallet
      \<and> w_status fullWallet = W_active
      \<and> getDoc u_id (usages fullStore) (usageDocId ''u1'' ''r2'') = None
      \<and> quota_total fullWallet < quota_used fullWallet + 1"
    by code_simp
  have h2: "''r1'' \<noteq> [] \<and> ''r2'' \<noteq> [] \<and> ''r1'' \<noteq> ''r2''
      \<and> getSubscription boundaryStore ''u1'' = Some sampleSubscription \<and> is_active sampleSubscription
      \<and> getPlanConfigById sampleRuntime (plan_id sampleSubscription)
          = Some premiumMonthly
      \<and> distinct (map w_id (wallets boundaryStore))
      \<and> getActiveWallet boundaryStore ''u1'' = Some (sampleWallet\<lparr>quota_used := 99\<rparr>)
      \<and> walletCurrent sampleRuntime sampleSubscription (sampleWallet\<lparr>quota_used := 99\<rparr>) 1736942400000
      \<and> walletCurrent sampleRuntime sampleSubscription (sampleWallet\<lparr>quota_used := 99\<rparr>) 1736942400000
      \<and> getDoc u_id (usages boundaryStore) (usageDocId ''u1'' ''r1'') = None
      \<and> getDoc u_id (usages boundaryStore) (usageDocId ''u1'' ''r2'') = None
      \<and> quota_used (sampleWallet\<lparr>quota_used := 99\<rparr>) = quota_total (sampleWallet\<lparr>quota_used := 99\<rparr>) - 1
      \<and> (1::int) \<le> 1"
    by code_simp
  have h3: "''r9'' \<noteq> [] \<and> getSubscription sampleStore ''u1'' = Some sampleSubscription
      \<and> is_active sampleSubscription
      \<and> getPlanConfigById sampleRuntime (plan_id sampleSubscription) = Some premiumMonthly
      \<and> distinct (map w_id (wallets sampleStore))
      \<and> getActiveWallet sampleStore ''u1'' = Some sampleWallet
      \<and> walletCurrent sampleRuntime sampleSubscription sampleWallet 1736942400000
      \<and> getDoc u_id (usages sampleStore) (usageDocId ''u1'' ''r9'') = None
      \<and> quota_total sampleWallet < quota_used sampleWallet + 200"
    by code_simp
  have c1: "reserveUsage sampleRuntime fullStore ''u1'' ''r2'' ''ai_detect'' 1 1736942400000 ''w3''
      = (\<lparr>allowed = False, status = rejected,
          remaining = max 0 (quota_total fullWallet - quota_used fullWallet),
          walletId = Some (w_id fullWallet)\<rparr>, fullStore)"
    using reserve_quota_exhausted [THEN conjunct1, THEN mp, OF h1] .
  obtain b' where c2: "reserveUsage sampleRuntime boundaryStore ''u1'' ''r1'' ''ai_detect'' 1 1736942400000 ''w2''
      = (\<lparr>allowed = True, status = Usage reserved, remaining = 0,
          walletId = Some (w_id (sampleWallet\<lparr>quota_used := 99\<rparr>))\<rparr>, b')"
    using reserve_quota_exhausted [THEN conjunct2, THEN conjunct1, THEN mp, OF h2,
        of "''ai_detect''" "''w2''"] by blast
  have c3: "reserveUsage sampleRuntime sampleStore ''u1'' ''r9'' ''ai_detect'' 200 1736942400000 ''w2''
      = (\<lparr>allowed = False, status = rejected,
          remaining = max 0 (quota_total sampleWallet - quota_used sampleWallet),
          walletId = Some (w_id sampleWallet)\<rparr>, sampleStore)"
    using reserve_quota_exhausted [THEN conjunct2, THEN conjunct2, THEN mp, OF h3] .
  have b': "b' = fullStore" using c2 by (simp add: fullStore_def)
  have w: "w_id (sampleWallet\<lparr>quota_used := 99\<rparr>) = ''w1''" "w_id fullWallet = ''w1''"
    "max 0 (quota_total fullWallet - quota_used fullWallet) = 0"
    "w_id sampleWallet = ''w1''"
    "max 0 (quota_total sampleWallet - quota_used sampleWallet) = 95"
    by (simp_all add: sampleWallet_def fullWallet_def)
  show ?thesis using h1 h3 c1 c2 c3 b' w by simp
qed

text \<open>
  The claim as stated fails: on 2025-02-15, after the period end of the wallet \<open>w1\<close>, a
  reserve of 200 units under a request id without usage document is rejected (the quota
  is exceeded on \<open>w1\<close> and on the wallet that replaces it), yet the call has written: it
  has closed \<open>w1\<close> and opened \<open>w2\<close>.
\<close>

theorem reserve_quota_exhausted_counterexample:
  "getDoc u_id (usages sampleStore) (usageDocId ''u1'' ''r9'') = None
   \<and> getActiveWallet sampleStore ''u1'' = Some sampleWallet
   \<and> quota_total sampleWallet < quota_used sampleWallet + 200
   \<and> reserveUsage sampleRuntime sampleStore ''u1'' ''r9'' ''ai_detect'' 200 1739620800000 ''w2''
       = (\<lparr>allowed = False, status = rejected, remaining = 100, walletId = Some ''w2''\<rparr>,
          overQuotaStore)
   \<and> map_option w_status (getDoc w_id (wallets sampleStore) ''w1'') = Some W_active
   \<and> map_option w_status (getDoc w_id (wallets overQuotaStore) ''w1'') = Some W_closed
   \<and> getDoc w_id (wallets sampleStore) ''w2'' = None
   \<and> getDoc w_id (wallets overQuotaStore) ''w2'' = Some renewedWallet"
  unfolding overQuotaStore_def by code_simp

subsection \<open>Webhook events are processed once\<close>

text \<open>
  C6.  Processing a billing event and then any number of further deliveries with the same
  event document id (the same payload, or one whose id or derived id is the same), at
  any later times, leaves the document store exactly as the first processing left it:
  the first call records the event in \<open>webhook_events\<close>, and every later call finds that
  document and returns without writing.
\<close>

theorem webhook_processed_once:
  assumes "\<forall>(q, now', newId') \<in> set calls. getWebhookEventId rt q = getWebhookEventId rt payload"
  shows "processAll rt s ((payload, now, newId) # calls) = processRevenueCatEvent rt s payload now newId
         \<and> getDoc wh_id (webhook_events (processRevenueCatEvent rt s payload now newId))
              (getWebhookEventId rt payload) \<noteq> None"
proof -
  let ?s1 = "processRevenueCatEvent rt s payload now newId"
  obtain d where d: "getDoc wh_id (webhook_events ?s1) (getWebhookEventId rt payload) = Some d"
    using processRevenueCatEvent_recorded [of rt s payload now newId] by auto
  have "processAll rt ?s1 calls = ?s1"
    using assms
  proof (induction calls)
    case Nil
    then show ?case by (simp add: processAll_def)
  next
    case (Cons c calls)
    obtain q now' newId' where c: "c = (q, now', newId')" by (cases c)
    have "getWebhookEventId rt q = getWebhookEventId rt payload" using Cons.prems c by simp
    then have "processRevenueCatEvent rt ?s1 q now' newId' = ?s1"
      using d by (simp add: processRevenueCatEvent_duplicate)
    then show ?case using Cons c by (simp add: processAll_def)
  qed
  then show ?thesis using d by (simp add: processAll_def)
qed

theorem webhook_processed_once_witness:
  "getWebhookEventId sampleRuntime (renewalEvent\<lparr>rawEvent := Some ''{}''\<rparr>)
     = getWebhookEventId sampleRuntime renewalEvent
   \<and> map_option quota_total (getActiveWallet renewedStore ''u1'') = Some 100
   \<and> map_option w_id (getActiveWallet renewedStore ''u1'') = Some ''w2''
   \<and> processAll sampleRuntime sampleStore
        [(renewalEvent, 1738368000000, ''w2''),
         (renewalEvent, 1739620800000, ''w3''),
         (renewalEvent\<lparr>rawEvent := Some ''{}''\<rparr>, 1740787200000, ''w4'')]
       = renewedStore
   \<and> getDoc wh_id (webhook_events renewedStore) ''rc_E1'' \<noteq> None"
proof -
  have i: "getWebhookEventId sampleRuntime (renewalEvent\<lparr>rawEvent := Some ''{}''\<rparr>)
     = getWebhookEventId sampleRuntime renewalEvent"
    "getWebhookEventId sampleRuntime renewalEvent = ''rc_E1''"
    by (simp_all add: getWebhookEventId_def renewalEvent_def truthy_def)
  have h: "\<forall>(q, now', newId') \<in> set [(renewalEvent, 1739620800000, ''w3''),
         (renewalEvent\<lparr>rawEvent := Some ''{}''\<rparr>, 1740787200000, ''w4'')].
      getWebhookEventId sampleRuntime q = getWebhookEventId sampleRuntime renewalEvent"
    using i by simp
  have v: "map_option quota_total (getActiveWallet renewedStore ''u1'') = Some 100"
    "map_option w_id (getActiveWallet renewedStore ''u1'') = Some ''w2''"
    by code_simp+
  show ?thesis
    using i v webhook_processed_once [OF h, of sampleStore 1738368000000 "''w2''"]
    by (simp add: renewedStore_def)
qed

subsection \<open>When a billing event opens a wallet\<close>

text \<open>
  C7, as the code has it.  For an event that is not a duplicate (the store offering a new
  wallet id), \<open>processRevenueCatEvent\<close> opens a wallet if and only if the derived status
  is \<open>active\<close> or \<open>cancelled\<close>, and the event is a purchase event or \<open>planChanged\<close> or
  \<open>periodChanged\<close>, and the plan id written to the subscription has a catalog entry.
  Here \<open>planChanged\<close> holds when a plan is resolved (from the payload's product id or else
  the existing plan id), the existing subscription has a non-empty plan id, and the two
  plan ids differ; \<open>periodChanged\<close> holds when the period end in force (the payload's, or
  else the existing one) and the existing subscription's period end are both non-empty
  and differ.
\<close>

theorem wallet_opened_iff:
  assumes "getDoc wh_id (webhook_events s) (getWebhookEventId rt payload) = None"
    and "newId \<notin> w_id ` set (wallets s)"
    and "existing = getDoc sub_id (subscriptions s) (userId payload)"
    and "existingPlanId = Option.bind existing plan_id"
    and "t = normalizeEventType (eventType payload)"
    and "nextPlan = orElse (orElse (resolvePlanConfig rt (productId payload))
                              (getPlanConfigById rt (productId payload)))
                      (if truthy existingPlanId then getPlanConfigById rt existingPlanId else None)"
    and "st = eventStatus t existing"
    and "pEnd = orElse (periodEnd payload) (Option.bind existing current_period_end)"
    and "planCh \<longleftrightarrow> (\<exists>np. nextPlan = Some np \<and> truthy existingPlanId
                         \<and> Some (planId np) \<noteq> existingPlanId)"
    and "periodCh \<longleftrightarrow> truthy pEnd \<and> truthy (Option.bind existing current_period_end)
                         \<and> pEnd \<noteq> Option.bind existing current_period_end"
  shows "newId \<in> w_id ` set (wallets (processRevenueCatEvent rt s payload now newId))
         \<longleftrightarrow> (st = S_active \<or> st = S_cancelled)
               \<and> (isPurchaseEvent t \<or> planCh \<or> periodCh)
               \<and> getPlanConfigById rt (orElse (map_option planId nextPlan) existingPlanId) \<noteq> None"
proof -
  let ?iso = "toISOString rt now"
  let ?planConfig = "orElse (resolvePlanConfig rt (productId payload))
                       (getPlanConfigById rt (productId payload))"
  let ?tr = "subscriptionTransition rt existing payload t ?planConfig ?iso"
  have so: "shouldOpenWallet ?tr \<longleftrightarrow> (st = S_active \<or> st = S_cancelled)
               \<and> (isPurchaseEvent t \<or> planCh \<or> periodCh)"
    unfolding assms(9,10)
    by (auto simp: subscriptionTransition_def Let_def assms(4,6,7,8) split: option.splits)
  have pid: "plan_id (updates ?tr) = orElse (map_option planId nextPlan) existingPlanId"
    by (simp add: subscriptionTransition_def Let_def assms(4,6))
  have w: "w_id ` set (wallets (processRevenueCatEvent rt s payload now newId))
      = (if shouldOpenWallet ?tr \<and> getPlanConfigById rt (plan_id (updates ?tr)) \<noteq> None
         then insert newId (w_id ` set (wallets s)) else w_id ` set (wallets s))"
    using assms(1)
    by (simp add: processRevenueCatEvent_def Let_def assms(3,5) openWalletForSubscription_ids
        closeWalletsForUser_ids)
  show ?thesis using assms(2) unfolding w so pid by auto
qed

theorem wallet_opened_iff_witness:
  "getDoc wh_id (webhook_events sampleStore) (getWebhookEventId sampleRuntime renewalEvent) = None
   \<and> ''w2'' \<notin> w_id ` set (wallets sampleStore)
   \<and> eventStatus ''RENEWAL'' (Some sampleSubscription) = S_active
   \<and> isPurchaseEvent ''RENEWAL''
   \<and> getPlanConfigById sampleRuntime (Some ''premium_monthly'') = Some premiumMonthly
   \<and> ''w2'' \<in> w_id ` set (wallets renewedStore)"
proof -
  have a: "getDoc wh_id (webhook_events sampleStore) (getWebhookEventId sampleRuntime renewalEvent) = None"
    by (simp add: sampleStore_def getDoc_def)
  have b: "''w2'' \<notin> w_id ` set (wallets sampleStore)"
    by (simp add: sampleStore_def sampleWallet_def)
  have c: "Some sampleSubscription = getDoc sub_id (subscriptions sampleStore) (userId renewalEvent)"
    by code_simp
  have d: "Some ''premium_monthly'' = Option.bind (Some sampleSubscription) plan_id"
    by (simp add: sampleSubscription_def)
  have e: "''RENEWAL'' = normalizeEventType (eventType renewalEvent)"
    by code_simp
  have f: "Some premiumMonthly
      = orElse (orElse (resolvePlanConfig sampleRuntime (productId renewalEvent))
                  (getPlanConfigById sampleRuntime (productId renewalEvent)))
          (if truthy (Some ''premium_monthly'')
           then getPlanConfigById sampleRuntime (Some ''premium_monthly'') else None)"
    by code_simp
  have g: "S_active = eventStatus ''RENEWAL'' (Some sampleSubscription)"
    by code_simp
  have h: "Some ''2025-03-01T00:00:00.000Z''
      = orElse (periodEnd renewalEvent) (Option.bind (Some sampleSubscription) current_period_end)"
    by code_simp
  have i: "False \<longleftrightarrow> (\<exists>np. Some premiumMonthly = Some np \<and> truthy (Some ''premium_monthly'')
                         \<and> Some (planId np) \<noteq> Some ''premium_monthly'')"
    by (simp add: premiumMonthly_def)
  have j: "True \<longleftrightarrow> truthy (Some ''2025-03-01T00:00:00.000Z'')
                 \<and> truthy (Option.bind (Some sampleSubscription) current_period_end)
                 \<and> Some ''2025-03-01T00:00:00.000Z''
                    \<noteq> Option.bind (Some sampleSubscription) current_period_end"
    by (simp add: truthy_def sampleSubscription_def)
  have p: "isPurchaseEvent ''RENEWAL''" by (simp add: isPurchaseEvent_def)
  have q: "getPlanConfigById sampleRuntime (Some ''premium_monthly'') = Some premiumMonthly"
    by code_simp
  have r: "getPlanConfigById sampleRuntime
       (orElse (map_option planId (Some premiumMonthly)) (Some ''premium_monthly'')) \<noteq> None"
    using q by (simp add: orElse_def premiumMonthly_def)
  have "''w2'' \<in> w_id ` set (wallets renewedStore)"
    unfolding renewedStore_def
    using wallet_opened_iff [OF a b c d e f g h i j, of 1738368000000] p r by simp
  then show ?thesis using a b g [symmetric] p q by simp
qed

text \<open>
  The claim as stated fails: for a user without subscription and a
  \<open>NON_RENEWING_PURCHASE\<close> of a known product, \<open>isActive\<close> is true, the resolved plan id
  differs from the (absent) existing one and the payload's period end is present and
  differs from the (absent) existing one, yet no wallet is opened.
\<close>

theorem wallet_opened_iff_counterexample:
  "getDoc wh_id (webhook_events sampleStore) (getWebhookEventId sampleRuntime nonRenewingEvent) = None
   \<and> getDoc sub_id (subscriptions sampleStore) (userId nonRenewingEvent) = None
   \<and> specShouldOpenWallet sampleRuntime None nonRenewingEvent
   \<and> map_option is_active
        (getDoc sub_id
           (subscriptions (processRevenueCatEvent sampleRuntime sampleStore nonRenewingEvent
                             1736942400000 ''w2'')) ''u2'')
       = Some True
   \<and> wallets (processRevenueCatEvent sampleRuntime sampleStore nonRenewingEvent 1736942400000 ''w2'')
       = wallets sampleStore"
  by code_simp

subsection \<open>The webhook event document id\<close>

text \<open>
  C8, as the code has it.  The event document id is \<open>rc_\<close> followed by the provider's
  event id when that is present and not empty, and otherwise \<open>rc_\<close> followed by the hash
  of \<open>userId:eventType:periodStart:periodEnd\<close> over the event type as the payload carries
  it, an absent period start or end contributing the empty string.  The uppercased event
  type is what the event document stored under that id records.
\<close>

theorem webhook_event_id:
  "getWebhookEventId rt payload
     = ''rc_'' @ (if eventId payload \<noteq> None \<and> eventId payload \<noteq> Some []
                 then the (eventId payload)
                 else toHash rt
                        (userId payload @ '':'' @ eventType payload @ '':''
                           @ (case periodStart payload of None \<Rightarrow> [] | Some v \<Rightarrow> v) @ '':''
                           @ (case periodEnd payload of None \<Rightarrow> [] | Some v \<Rightarrow> v)))
   \<and> map_option event_type
         (getDoc wh_id (webhook_events (processRevenueCatEvent rt s payload now newId))
            (getWebhookEventId rt payload))
       = (case getDoc wh_id (webhook_events s) (getWebhookEventId rt payload) of
            Some d \<Rightarrow> Some (event_type d)
          | None \<Rightarrow> Some (normalizeEventType (eventType payload)))"
proof
  show "getWebhookEventId rt payload
     = ''rc_'' @ (if eventId payload \<noteq> None \<and> eventId payload \<noteq> Some []
                 then the (eventId payload)
                 else toHash rt
                        (userId payload @ '':'' @ eventType payload @ '':''
                           @ (case periodStart payload of None \<Rightarrow> [] | Some v \<Rightarrow> v) @ '':''
                           @ (case periodEnd payload of None \<Rightarrow> [] | Some v \<Rightarrow> v)))"
    by (cases "eventId payload")
      (simp_all add: getWebhookEventId_def truthy_def webhookComposite_def)
next
  show "map_option event_type
         (getDoc wh_id (webhook_events (processRevenueCatEvent rt s payload now newId))
            (getWebhookEventId rt payload))
       = (case getDoc wh_id (webhook_events s) (getWebhookEventId rt payload) of
            Some d \<Rightarrow> Some (event_type d)
          | None \<Rightarrow> Some (normalizeEventType (eventType payload)))"
  proof (cases "getDoc wh_id (webhook_events s) (getWebhookEventId rt payload)")
    case (Some d)
    then show ?thesis by (simp add: processRevenueCatEvent_duplicate)
  next
    case None
    then show ?thesis
      by (simp add: processRevenueCatEvent_def Let_def openWalletForSubscription_events
          closeWalletsForUser_def getDoc_updateDoc getDoc_setDoc)
  qed
qed

theorem webhook_event_id_witness:
  "getWebhookEventId sampleRuntime renewalEvent = ''rc_E1''
   \<and> getWebhookEventId sampleRuntime lowercaseEvent
       = ''rc_a2f61c9cc1fd73c4b33e901208ce1374c85309cb3bdf0bdc7ab6f0280ca7d00a''
   \<and> map_option event_type
         (getDoc wh_id
            (webhook_events (processRevenueCatEvent sampleRuntime sampleStore lowercaseEvent
                               1736942400000 ''w2''))
            ''rc_a2f61c9cc1fd73c4b33e901208ce1374c85309cb3bdf0bdc7ab6f0280ca7d00a'')
       = Some ''RENEWAL''"
proof -
  have n: "getDoc wh_id (webhook_events sampleStore) k = None" for k
    by (simp add: sampleStore_def getDoc_def)
  have h: "toHash sampleRuntime ''u1:renewal::''
      = ''a2f61c9cc1fd73c4b33e901208ce1374c85309cb3bdf0bdc7ab6f0280ca7d00a''"
    by (simp add: sampleRuntime_def sampleHashes_def)
  have a: "getWebhookEventId sampleRuntime renewalEvent = ''rc_E1''"
    using webhook_event_id [of sampleRuntime renewalEvent sampleStore 0 "''w2''"]
    by (simp add: renewalEvent_def)
  have b: "getWebhookEventId sampleRuntime lowercaseEvent
       = ''rc_a2f61c9cc1fd73c4b33e901208ce1374c85309cb3bdf0bdc7ab6f0280ca7d00a''"
    using webhook_event_id [of sampleRuntime lowercaseEvent sampleStore 0 "''w2''"] h
    by (simp add: lowercaseEvent_def)
  have u: "normalizeEventType (eventType lowercaseEvent) = ''RENEWAL''" by code_simp
  have c: "map_option event_type
         (getDoc wh_id
            (webhook_events (processRevenueCatEvent sampleRuntime sampleStore lowercaseEvent
                               1736942400000 ''w2''))
            (getWebhookEventId sampleRuntime lowercaseEvent))
       = Some (normalizeEventType (eventType lowercaseEvent))"
    using webhook_event_id [of sampleRuntime lowercaseEvent sampleStore 1736942400000 "''w2''",
        THEN conjunct2] n
    by simp
  show ?thesis using a b c [unfolded b u] by simp
qed

text \<open>
  The claim as stated fails: for the type \<open>renewal\<close> the code hashes \<open>u1:renewal::\<close>, not
  \<open>u1:RENEWAL::\<close>, and for an empty provider id it takes the hash, not \<open>rc_\<close> alone.
\<close>

theorem webhook_event_id_counterexample:
  "getWebhookEventId sampleRuntime lowercaseEvent
     = ''rc_a2f61c9cc1fd73c4b33e901208ce1374c85309cb3bdf0bdc7ab6f0280ca7d00a''
   \<and> specWebhookEventId sampleRuntime lowercaseEvent
       = ''rc_9e29efc62f56e19f162fac2324b57dccfc7deaa1d4342c6f536b5fbbaf3aa989''
   \<and> getWebhookEventId sampleRuntime lowercaseEvent \<noteq> specWebhookEventId sampleRuntime lowercaseEvent
   \<and> getWebhookEventId sampleRuntime (lowercaseEvent\<lparr>eventId := Some []\<rparr>)
       = ''rc_a2f61c9cc1fd73c4b33e901208ce1374c85309cb3bdf0bdc7ab6f0280ca7d00a''
   \<and> specWebhookEventId sampleRuntime (lowercaseEvent\<lparr>eventId := Some []\<rparr>) = ''rc_''"
  by code_simp

subsection \<open>The period written by a plan sync\<close>

text \<open>
  C9, as the code has it.  A plan sync at a time \<open>now\<close> (not before 1970) of a candidate
  that resolves to a plan writes \<open>currentPeriodStart = now\<close> and the period end of the
  plan's cycle.  For a monthly plan the end is midnight UTC on day 1 of the month after
  \<open>now\<close> (January of the next year after December).  For a yearly plan the end is
  midnight UTC of the same month and day in the next year, except that a sync on 29
  February gives 1 March of the next year.  A monthly sync at 2025-01-31T12:00:00Z gives
  2025-02-01T00:00:00Z.
\<close>

theorem sync_period:
  assumes "0 \<le> now"
    and "resolvePlanConfig rt candidate = Some rc" and "planId rc \<noteq> []"
    and "getPlanConfigById rt (Some (planId rc)) = Some pc"
  shows "map_option (\<lambda>d. (current_period_start d, current_period_end d))
            (getDoc sub_id (subscriptions (syncQuotaFromPlan rt s uid candidate now newId)) uid)
         = Some (Some (toISOString rt now), Some (toISOString rt (syncPeriodEnd (cycle pc) now)))
       \<and> (YearFromTime (syncPeriodEnd monthly now) = YearFromTime now + (MonthFromTime now + 1) div 12
          \<and> MonthFromTime (syncPeriodEnd monthly now) = (MonthFromTime now + 1) mod 12
          \<and> DateFromTime (syncPeriodEnd monthly now) = 1
          \<and> TimeWithinDay (syncPeriodEnd monthly now) = 0)
       \<and> (YearFromTime (syncPeriodEnd yearly now) = YearFromTime now + 1
          \<and> MonthFromTime (syncPeriodEnd yearly now)
              = (if MonthFromTime now = 1 \<and> DateFromTime now = 29 then 2 else MonthFromTime now)
          \<and> DateFromTime (syncPeriodEnd yearly now)
              = (if MonthFromTime now = 1 \<and> DateFromTime now = 29 then 1 else DateFromTime now)
          \<and> TimeWithinDay (syncPeriodEnd yearly now) = 0)
       \<and> syncPeriodEnd monthly (MakeDate (MakeDay 2025 0 31) 43200000) = MakeDate (MakeDay 2025 1 1) 0"
proof (intro conjI)
  show "syncPeriodEnd monthly (MakeDate (MakeDay 2025 0 31) 43200000) = MakeDate (MakeDay 2025 1 1) 0"
    by code_simp
qed (use syncQuotaFromPlan_period [OF assms(2-4)] syncPeriodEnd_monthly [OF assms(1)]
      syncPeriodEnd_yearly [OF assms(1)] in simp_all)

theorem sync_period_witness:
  "(0::int) \<le> 1738324800000
   \<and> toISOString sampleRuntime (MakeDate (MakeDay 2025 0 31) 43200000) = ''2025-01-31T12:00:00.000Z''
   \<and> map_option planId (resolvePlanConfig sampleRuntime (Some ''com.app.aiorreal-monthly''))
       = Some ''premium_monthly''
   \<and> map_option (\<lambda>d. (current_period_start d, current_period_end d))
        (getDoc sub_id
           (subscriptions (syncQuotaFromPlan sampleRuntime sampleStore ''u3''
                             (Some ''com.app.aiorreal-monthly'') 1738324800000 ''w2'')) ''u3'')
       = Some (Some ''2025-01-31T12:00:00.000Z'', Some ''2025-02-01T00:00:00.000Z'')
   \<and> YearFromTime (syncPeriodEnd monthly 1738324800000) = 2025
   \<and> MonthFromTime (syncPeriodEnd monthly 1738324800000) = 1
   \<and> DateFromTime (syncPeriodEnd monthly 1738324800000) = 1"
proof -
  have n: "(0::int) \<le> 1738324800000" by simp
  have a: "resolvePlanConfig sampleRuntime (Some ''com.app.aiorreal-monthly'') = Some premiumMonthly"
    by code_simp
  have b: "planId premiumMonthly \<noteq> []" by (simp add: premiumMonthly_def)
  have c: "getPlanConfigById sampleRuntime (Some (planId premiumMonthly)) = Some premiumMonthly"
    by code_simp
  have v: "toISOString sampleRuntime 1738324800000 = ''2025-01-31T12:00:00.000Z''"
    "toISOString sampleRuntime (syncPeriodEnd (cycle premiumMonthly) 1738324800000)
       = ''2025-02-01T00:00:00.000Z''"
    "MakeDate (MakeDay 2025 0 31) 43200000 = 1738324800000"
    "YearFromTime 1738324800000 + (MonthFromTime 1738324800000 + 1) div 12 = 2025"
    "(MonthFromTime 1738324800000 + 1) mod 12 = 1"
    by code_simp+
  have p: "planId premiumMonthly = ''premium_monthly''" by (simp add: premiumMonthly_def)
  note t = sync_period [OF n a b c, of sampleStore "''u3''" "''w2''"]
  show ?thesis
    using n a p t [THEN conjunct1] t [THEN conjunct2, THEN conjunct1]
    unfolding v by simp
qed

text \<open>
  The claim as stated fails for a yearly plan synced on 29 February: at
  2024-02-29T12:00:00Z the period end is 2025-03-01T00:00:00Z, whose month and day are
  not those of the sync.
\<close>

theorem sync_period_counterexample:
  "YearFromTime 1709208000000 = 2024 \<and> MonthFromTime 1709208000000 = 1
   \<and> DateFromTime 1709208000000 = 29
   \<and> toISOString sampleRuntime 1709208000000 = ''2024-02-29T12:00:00.000Z''
   \<and> map_option (\<lambda>d. (current_period_start d, current_period_end d))
        (getDoc sub_id
           (subscriptions (syncQuotaFromPlan sampleRuntime sampleStore ''u3''
                             (Some ''com.app.aiorreal-yearly'') 1709208000000 ''w2'')) ''u3'')
       = Some (Some ''2024-02-29T12:00:00.000Z'', Some ''2025-03-01T00:00:00.000Z'')
   \<and> syncPeriodEnd yearly 1709208000000 = 1740787200000
   \<and> YearFromTime 1740787200000 = 2025 \<and> MonthFromTime 1740787200000 = 2
   \<and> DateFromTime 1740787200000 = 1
   \<and> MonthFromTime (syncPeriodEnd yearly 1709208000000) \<noteq> MonthFromTime 1709208000000"
  by code_simp

subsection \<open>A subscription whose plan does not resolve\<close>

text \<open>
  C10.  For an active subscription whose \<open>plan_id\<close> has no catalog entry,
  \<open>ensureActiveWallet\<close> returns none and leaves the store as it is, whatever the wallet
  collection holds, and \<open>reserveUsage\<close> for that user returns \<open>allowed = false\<close>,
  \<open>status = rejected\<close>, \<open>remaining = 0\<close>, \<open>walletId = none\<close>.
\<close>

theorem unresolved_plan_rejects:
  assumes "getSubscription s uid = Some subscription"
    and "is_active subscription"
    and "getPlanConfigById rt (plan_id subscription) = None"
  shows "ensureActiveWallet rt (s\<lparr>wallets := ws\<rparr>) uid subscription now newId
           = (None, s\<lparr>wallets := ws\<rparr>)
         \<and> reserveUsage rt s uid requestId act amt now newId
             = (\<lparr>allowed = False, status = rejected, remaining = 0, walletId = None\<rparr>, s)"
  using assms by (simp add: ensureActiveWallet_def reserveUsage_def rejectedResult_def)

theorem unresolved_plan_rejects_witness:
  "getSubscription orphanStore ''u1'' = Some orphanSubscription
   \<and> is_active orphanSubscription
   \<and> getPlanConfigById sampleRuntime (plan_id orphanSubscription) = None
   \<and> ensureActiveWallet sampleRuntime (orphanStore\<lparr>wallets := []\<rparr>) ''u1'' orphanSubscription
        1736942400000 ''w2''
       = (None, orphanStore\<lparr>wallets := []\<rparr>)
   \<and> reserveUsage sampleRuntime orphanStore ''u1'' ''r1'' ''ai_detect'' 1 1736942400000 ''w2''
       = (\<lparr>allowed = False, status = rejected, remaining = 0, walletId = None\<rparr>, orphanStore)"
proof -
  have a: "getSubscription orphanStore ''u1'' = Some orphanSubscription"
    by (simp add: getSubscription_def getDoc_def orphanStore_def orphanSubscription_def
        sampleSubscription_def)
  have b: "is_active orphanSubscription"
    by (simp add: orphanSubscription_def sampleSubscription_def)
  have c: "getPlanConfigById sampleRuntime (plan_id orphanSubscription) = None"
    by code_simp
  show ?thesis using a b c unresolved_plan_rejects [OF a b c] by simp
qed

end
